theory Spec2Isabelle
  imports Complex_Main "HOL-Library.Multiset" "HOL-Library.Log_Nat"
begin

section \<open>Data model\<close>

text \<open>
  The ledger application keeps its data in plain JavaScript values. A JavaScript string
  is modelled as the list of bytes of its UTF-8 encoding, and a value that may be
  \<^verbatim>\<open>undefined\<close> is an \<open>option\<close>.

  A JavaScript \<^verbatim>\<open>number\<close> is an IEEE-754 binary64 value: a finite value, held here as
  the rational it denotes, one of the two infinities, or \<^verbatim>\<open>NaN\<close>. The two zeros are not
  told apart: they are equal as numbers and print alike in the exports.
\<close>

datatype number = Fin rat | PInf | NInf | NaN

instantiation number :: "{zero, one}"
begin

definition zero_number :: number where
  "zero_number = Fin 0"

definition one_number :: number where
  "one_number = Fin 1"

instance ..

end

text \<open>
  \<^verbatim>\<open>export type Country = 'JP' | 'KR' | 'OTHER'\<close>: at run time a country is the
  string that holds the code, and the functions below switch on that string.
\<close>

type_synonym Country = string

text \<open>\<^verbatim>\<open>interface Transaction\<close>; the field \<^verbatim>\<open>id\<close> is called \<open>id_tx\<close> here.\<close>

record Transaction =
  id_tx :: string
  country :: "Country option"
  customerName :: string
  itemName :: string
  quantity :: number
  costJpy :: number
  exchangeRate :: number
  sellingExchangeRate :: "number option"
  priceSold :: number
  date :: string

text \<open>\<^verbatim>\<open>interface SummaryStats\<close>\<close>

record SummaryStats =
  totalSales :: number
  totalCost :: number
  totalProfit :: number
  itemCount :: number

section \<open>Arithmetic of the language\<close>

text \<open>
  Every arithmetic operation on finite values takes the exact result and rounds it to the
  nearest binary64 value, to the one with the even significand when two are equally near.
  \<open>round_even\<close> rounds a rational to an integer in that way. \<open>ilog2\<close> is the binary
  exponent of a positive rational \<open>x\<close>: the \<open>e\<close> with \<open>2 ^ e \<le> x < 2 ^ (e + 1)\<close>, found
  from the bit lengths of the numerator and the denominator.
\<close>

definition round_even :: "rat \<Rightarrow> int" where
  "round_even y =
     (let f = \<lfloor>y\<rfloor>; r = y - of_int f
      in if r < 1 / 2 then f else if 1 / 2 < r then f + 1 else if even f then f else f + 1)"

definition ilog2 :: "rat \<Rightarrow> int" where
  "ilog2 x =
     (let p = fst (quotient_of x); q = snd (quotient_of x); d = bitlen p - bitlen q
      in if 2 powi d \<le> x then d else d - 1)"

text \<open>
  \<open>round_to_double\<close> rounds a rational to binary64. The significand has 53 bits, so a
  value with exponent \<open>e\<close> is a multiple of \<open>2 ^ (e - 52)\<close>; the least exponent is
  \<open>-1022\<close>, below which the values are the multiples of \<open>2 ^ -1074\<close>; a result of
  \<open>2 ^ 1024\<close> or more is an infinity.
\<close>

definition round_to_double :: "rat \<Rightarrow> number" where
  "round_to_double x =
     (if x = 0 then Fin 0
      else let e = max (ilog2 \<bar>x\<bar>) (- 1022);
               u = 2 powi (e - 52);
               y = of_int (round_even (\<bar>x\<bar> / u)) * u
           in if 2 powi 1024 \<le> y then (if 0 < x then PInf else NInf)
              else Fin (if 0 < x then y else - y))"

text \<open>
  A decimal literal of the source, and the result of parsing a decimal string, is the
  binary64 value nearest to the decimal: \<open>dbl (2 / 10)\<close> is the number written
  \<^verbatim>\<open>0.2\<close>.
\<close>

definition dbl :: "rat \<Rightarrow> number" where
  "dbl x = round_to_double x"

text \<open>The operators \<^verbatim>\<open>+\<close>, \<^verbatim>\<open>-\<close> and \<^verbatim>\<open>*\<close> on numbers.\<close>

fun fneg :: "number \<Rightarrow> number" where
  "fneg (Fin a) = Fin (- a)"
| "fneg PInf = NInf"
| "fneg NInf = PInf"
| "fneg NaN = NaN"

fun fadd :: "number \<Rightarrow> number \<Rightarrow> number" where
  "fadd (Fin a) (Fin b) = round_to_double (a + b)"
| "fadd NaN y = NaN"
| "fadd x NaN = NaN"
| "fadd PInf NInf = NaN"
| "fadd NInf PInf = NaN"
| "fadd PInf y = PInf"
| "fadd NInf y = NInf"
| "fadd x PInf = PInf"
| "fadd x NInf = NInf"

definition fsub :: "number \<Rightarrow> number \<Rightarrow> number" where
  "fsub x y = fadd x (fneg y)"

text \<open>An infinity, positive when \<open>pos\<close>, times a number.\<close>

fun inf_times :: "bool \<Rightarrow> number \<Rightarrow> number" where
  "inf_times pos (Fin b) = (if b = 0 then NaN else if (0 < b) = pos then PInf else NInf)"
| "inf_times pos PInf = (if pos then PInf else NInf)"
| "inf_times pos NInf = (if pos then NInf else PInf)"
| "inf_times pos NaN = NaN"

fun fmul :: "number \<Rightarrow> number \<Rightarrow> number" where
  "fmul (Fin a) (Fin b) = round_to_double (a * b)"
| "fmul NaN y = NaN"
| "fmul x NaN = NaN"
| "fmul PInf y = inf_times True y"
| "fmul NInf y = inf_times False y"
| "fmul x PInf = inf_times True x"
| "fmul x NInf = inf_times False x"

text \<open>
  \<^verbatim>\<open>Math.round(x)\<close> is the integer closest to \<open>x\<close>, and of two equally close
  integers the one towards plus infinity: the floor of \<open>x + 1/2\<close>, which is a binary64
  value whenever \<open>x\<close> is one. An infinity and \<^verbatim>\<open>NaN\<close> are returned as they are.
\<close>

fun Math_round :: "number \<Rightarrow> number" where
  "Math_round (Fin x) = Fin (of_int \<lfloor>x + 1 / 2\<rfloor>)"
| "Math_round PInf = PInf"
| "Math_round NInf = NInf"
| "Math_round NaN = NaN"

text \<open>A number is falsy when it is zero or \<^verbatim>\<open>NaN\<close>.\<close>

fun falsy :: "number \<Rightarrow> bool" where
  "falsy (Fin x) = (x = 0)"
| "falsy NaN = True"
| "falsy PInf = False"
| "falsy NInf = False"

section \<open>Derived values of the three renderings\<close>

text \<open>
  The local constants of the callback in \<^verbatim>\<open>handleCopyToClipboard\<close>:
  \<^verbatim>\<open>
  const localCostUnit = Math.round(t.costJpy * t.exchangeRate);
  const totalProfit = (t.priceSold - localCostUnit) * t.quantity;
  \<close>
\<close>

definition clip_localCostUnit :: "Transaction \<Rightarrow> number" where
  "clip_localCostUnit t = Math_round (fmul (costJpy t) (exchangeRate t))"

definition clip_totalProfit :: "Transaction \<Rightarrow> number" where
  "clip_totalProfit t = fmul (fsub (priceSold t) (clip_localCostUnit t)) (quantity t)"

text \<open>The same two constants in the table body of \<^verbatim>\<open>TransactionList\<close>.\<close>

definition table_localCostUnit :: "Transaction \<Rightarrow> number" where
  "table_localCostUnit t = Math_round (fmul (costJpy t) (exchangeRate t))"

definition table_totalProfit :: "Transaction \<Rightarrow> number" where
  "table_totalProfit t = fmul (fsub (priceSold t) (table_localCostUnit t)) (quantity t)"

text \<open>
  The local constants of the callback in \<^verbatim>\<open>handleExportCSV\<close>:
  \<^verbatim>\<open>
  const localCostPerUnit = Math.round(t.costJpy * t.exchangeRate);
  const localCostTotal = localCostPerUnit * t.quantity;
  const totalSales = t.priceSold * t.quantity;
  const totalProfit = totalSales - localCostTotal;
  const profitPerUnit = t.priceSold - localCostPerUnit;
  \<close>
\<close>

definition csv_localCostPerUnit :: "Transaction \<Rightarrow> number" where
  "csv_localCostPerUnit t = Math_round (fmul (costJpy t) (exchangeRate t))"

definition csv_localCostTotal :: "Transaction \<Rightarrow> number" where
  "csv_localCostTotal t = fmul (csv_localCostPerUnit t) (quantity t)"

definition csv_totalSales :: "Transaction \<Rightarrow> number" where
  "csv_totalSales t = fmul (priceSold t) (quantity t)"

definition csv_totalProfit :: "Transaction \<Rightarrow> number" where
  "csv_totalProfit t = fsub (csv_totalSales t) (csv_localCostTotal t)"

definition csv_profitPerUnit :: "Transaction \<Rightarrow> number" where
  "csv_profitPerUnit t = fsub (priceSold t) (csv_localCostPerUnit t)"

section \<open>Country policy\<close>

text \<open>
  The labels and currency symbols are not ASCII; each is the UTF-8 encoding of the
  source literal: the labels U+65E5 U+672C (Japan), U+97D3 U+570B (Korea) and
  U+5176 U+4ED6 (other), the yen sign U+00A5 and the won sign U+20A9.
\<close>

definition label_JP :: string where
  "label_JP = [CHR 0xE6, CHR 0x97, CHR 0xA5, CHR 0xE6, CHR 0x9C, CHR 0xAC]"

definition label_KR :: string where
  "label_KR = [CHR 0xE9, CHR 0x9F, CHR 0x93, CHR 0xE5, CHR 0x9C, CHR 0x8B]"

definition label_OTHER :: string where
  "label_OTHER = [CHR 0xE5, CHR 0x85, CHR 0xB6, CHR 0xE4, CHR 0xBB, CHR 0x96]"

definition yen_sign :: string where
  "yen_sign = [CHR 0xC2, CHR 0xA5]"

definition won_sign :: string where
  "won_sign = [CHR 0xE2, CHR 0x82, CHR 0xA9]"

record CountryConfig =
  label :: string
  rate :: number
  sellingRate :: number
  currency :: string

text \<open>
  \<^verbatim>\<open>const COUNTRY_CONFIG: Record<Country, {...}>\<close> is indexed by the type
  \<^verbatim>\<open>Country\<close> only: with the literal \<^verbatim>\<open>'JP'\<close>, with the form's country state and with
  the keys of the table itself. Its keys are the datatype \<open>CountryKey\<close>, \<open>key_code\<close>
  gives the string of a key, and the table is a function on the keys. Each rate is the
  binary64 value of its decimal literal.
\<close>

datatype CountryKey = JP | KR | OTHER

fun key_code :: "CountryKey \<Rightarrow> Country" where
  "key_code JP = ''JP''"
| "key_code KR = ''KR''"
| "key_code OTHER = ''OTHER''"

fun COUNTRY_CONFIG :: "CountryKey \<Rightarrow> CountryConfig" where
  "COUNTRY_CONFIG JP =
     \<lparr>label = label_JP, rate = dbl (2 / 10), sellingRate = dbl (28 / 100),
      currency = yen_sign\<rparr>"
| "COUNTRY_CONFIG KR =
     \<lparr>label = label_KR, rate = dbl (2 / 100), sellingRate = dbl (35 / 1000),
      currency = won_sign\<rparr>"
| "COUNTRY_CONFIG OTHER =
     \<lparr>label = label_OTHER, rate = 1, sellingRate = 1, currency = ''$''\<rparr>"

text \<open>
  \<^verbatim>\<open>getCountryLabel\<close> and \<^verbatim>\<open>getCurrencySymbol\<close> take
  \<^verbatim>\<open>Country | undefined\<close> and switch on it, with a \<^verbatim>\<open>default\<close> branch.
\<close>

definition getCountryLabel :: "Country option \<Rightarrow> string" where
  "getCountryLabel c =
     (if c = Some ''JP'' then label_JP
      else if c = Some ''KR'' then label_KR
      else if c = Some ''OTHER'' then label_OTHER
      else label_JP)"

definition getCurrencySymbol :: "Country option \<Rightarrow> string" where
  "getCurrencySymbol c =
     (if c = Some ''JP'' then yen_sign
      else if c = Some ''KR'' then won_sign
      else if c = Some ''OTHER'' then ''$''
      else yen_sign)"

text \<open>
  The two conditional expressions in the callback of \<^verbatim>\<open>handleExportCSV\<close>:
  \<^verbatim>\<open>
  const countryLabel = t.country === 'KR' ? ... : (t.country === 'OTHER' ? ... : ...);
  const currencySymbol = t.country === 'KR' ? ... : (t.country === 'OTHER' ? '$' : ...);
  \<close>
\<close>

definition csv_countryLabel :: "Transaction \<Rightarrow> string" where
  "csv_countryLabel t =
     (if country t = Some ''KR'' then label_KR
      else if country t = Some ''OTHER'' then label_OTHER else label_JP)"

definition csv_currencySymbol :: "Transaction \<Rightarrow> string" where
  "csv_currencySymbol t =
     (if country t = Some ''KR'' then won_sign
      else if country t = Some ''OTHER'' then ''$'' else yen_sign)"

section \<open>Ledger aggregator\<close>

text \<open>
  The \<^verbatim>\<open>stats\<close> value of \<^verbatim>\<open>App\<close>: a \<^verbatim>\<open>reduce\<close> over the transactions from the
  left, starting from the all-zero record. \<open>stats_step\<close> is the callback.
\<close>

definition stats_step :: "SummaryStats \<Rightarrow> Transaction \<Rightarrow> SummaryStats" where
  "stats_step acc t =
     (let unitCostTwd = Math_round (fmul (costJpy t) (exchangeRate t));
          totalCost' = fmul unitCostTwd (quantity t);
          totalSales' = fmul (priceSold t) (quantity t);
          profit = fsub totalSales' totalCost'
      in \<lparr>totalSales = fadd (totalSales acc) totalSales',
          totalCost = fadd (totalCost acc) totalCost',
          totalProfit = fadd (totalProfit acc) profit,
          itemCount = fadd (itemCount acc) (quantity t)\<rparr>)"

definition stats :: "Transaction list \<Rightarrow> SummaryStats" where
  "stats ts = foldl stats_step \<lparr>totalSales = 0, totalCost = 0, totalProfit = 0, itemCount = 0\<rparr> ts"

section \<open>Ledger store\<close>

text \<open>
  The state of \<^verbatim>\<open>App\<close> that the ledger operations read and write: the transactions
  and the configuration of the confirmation dialogue. \<^verbatim>\<open>type\<close> is
  \<^verbatim>\<open>'single' | 'all' | null\<close> and \<^verbatim>\<open>targetId\<close> is optional.
\<close>

datatype ModalType = single | all

record ModalConfig =
  isOpen :: bool
  mtype :: "ModalType option"
  targetId :: "string option"

record App =
  transactions :: "Transaction list"
  modalConfig :: ModalConfig

text \<open>A string is truthy when it is defined and not empty.\<close>

definition truthy :: "string option \<Rightarrow> bool" where
  "truthy s = (case s of None \<Rightarrow> False | Some v \<Rightarrow> v \<noteq> [])"

text \<open>
  \<^verbatim>\<open>
  const executeDelete = () => {
    if (modalConfig.type === 'single' && modalConfig.targetId) {
      setTransactions(prev => prev.filter(t => String(t.id) !== String(modalConfig.targetId)));
    } else if (modalConfig.type === 'all') {
      setTransactions([]);
    }
    setModalConfig({ isOpen: false, type: null });
  };
  \<close>
  The ids are strings already, so \<^verbatim>\<open>String\<close> leaves them as they are.
  In the guarded branch \<^verbatim>\<open>targetId\<close> is defined, so the comparison is between the id and
  the string it holds.
\<close>

definition executeDelete :: "App \<Rightarrow> App" where
  "executeDelete s =
     (let mc = modalConfig s;
          ts = (if mtype mc = Some single \<and> truthy (targetId mc)
                then filter (\<lambda>t. Some (id_tx t) \<noteq> targetId mc) (transactions s)
                else if mtype mc = Some all then []
                else transactions s)
      in \<lparr>transactions = ts,
          modalConfig = \<lparr>isOpen = False, mtype = None, targetId = None\<rparr>\<rparr>)"

definition handleAddTransaction :: "Transaction \<Rightarrow> App \<Rightarrow> App" where
  "handleAddTransaction newTransaction s =
     s\<lparr>transactions := transactions s @ [newTransaction]\<rparr>"

definition handleDeleteTransaction :: "string \<Rightarrow> App \<Rightarrow> App" where
  "handleDeleteTransaction i s =
     s\<lparr>modalConfig := \<lparr>isOpen = True, mtype = Some single, targetId = Some i\<rparr>\<rparr>"

definition handleClearAllTransactions :: "App \<Rightarrow> App" where
  "handleClearAllTransactions s =
     s\<lparr>modalConfig := \<lparr>isOpen = True, mtype = Some all, targetId = None\<rparr>\<rparr>"

text \<open>The \<^verbatim>\<open>onCancel\<close> handler of the dialogue.\<close>

definition onCancel :: "App \<Rightarrow> App" where
  "onCancel s = s\<lparr>modalConfig := \<lparr>isOpen = False, mtype = None, targetId = None\<rparr>\<rparr>"

text \<open>
  The two destructive operations of the ledger, each the request followed by its
  confirmation.
\<close>

definition ledger_remove :: "string \<Rightarrow> App \<Rightarrow> App" where
  "ledger_remove i s = executeDelete (handleDeleteTransaction i s)"

definition ledger_clear :: "App \<Rightarrow> App" where
  "ledger_clear s = executeDelete (handleClearAllTransactions s)"

section \<open>Export formatter\<close>

text \<open>
  An element of the array that a row callback returns is a string or a number;
  \<^verbatim>\<open>join\<close> converts each element to a string and puts the separator between them.
  The conversion of a number to a string (\<^verbatim>\<open>Number.prototype.toString\<close>, also used by
  template literals) and \<^verbatim>\<open>new Date(d).toLocaleDateString()\<close> belong to the language
  and its locale; they are the parameters \<open>numstr\<close> and \<open>localeDate\<close>.
\<close>

datatype cell = S string | N number

fun cell_str :: "(number \<Rightarrow> string) \<Rightarrow> cell \<Rightarrow> string" where
  "cell_str numstr (S s) = s"
| "cell_str numstr (N n) = numstr n"

fun join :: "string \<Rightarrow> string list \<Rightarrow> string" where
  "join sep [] = []"
| "join sep [x] = x"
| "join sep (x # y # ys) = x @ sep @ join sep (y # ys)"

text \<open>
  \<^verbatim>\<open>t.sellingExchangeRate || d\<close>: the rate when it is defined and not falsy, else
  the string \<open>d\<close>.
\<close>

definition sellingRate_or :: "number option \<Rightarrow> string \<Rightarrow> cell" where
  "sellingRate_or r d = (case r of None \<Rightarrow> S d | Some v \<Rightarrow> if falsy v then S d else N v)"

text \<open>The \<^verbatim>\<open>headers\<close> array of \<^verbatim>\<open>handleCopyToClipboard\<close>, each title as UTF-8 bytes.\<close>

definition clip_headers :: "string list" where
  "clip_headers =
    [\<comment> \<open>U+65E5 U+671F\<close>
     [CHR 0xE6, CHR 0x97, CHR 0xA5, CHR 0xE6, CHR 0x9C, CHR 0x9F],
     \<comment> \<open>U+570B U+5BB6\<close>
     [CHR 0xE5, CHR 0x9C, CHR 0x8B, CHR 0xE5, CHR 0xAE, CHR 0xB6],
     \<comment> \<open>U+5BA2 U+4EBA U+540D U+5B57\<close>
     [CHR 0xE5, CHR 0xAE, CHR 0xA2, CHR 0xE4, CHR 0xBA, CHR 0xBA, CHR 0xE5, CHR 0x90,
      CHR 0x8D, CHR 0xE5, CHR 0xAD, CHR 0x97],
     \<comment> \<open>U+5546 U+54C1 U+540D U+7A31\<close>
     [CHR 0xE5, CHR 0x95, CHR 0x86, CHR 0xE5, CHR 0x93, CHR 0x81, CHR 0xE5, CHR 0x90,
      CHR 0x8D, CHR 0xE7, CHR 0xA8, CHR 0xB1],
     \<comment> \<open>U+6578 U+91CF\<close>
     [CHR 0xE6, CHR 0x95, CHR 0xB8, CHR 0xE9, CHR 0x87, CHR 0x8F],
     \<comment> \<open>U+5916 U+5E63 U+6210 U+672C ( U+55AE U+4EF6 )\<close>
     [CHR 0xE5, CHR 0xA4, CHR 0x96, CHR 0xE5, CHR 0xB9, CHR 0xA3, CHR 0xE6, CHR 0x88,
      CHR 0x90, CHR 0xE6, CHR 0x9C, CHR 0xAC, CHR 0x28, CHR 0xE5, CHR 0x96, CHR 0xAE,
      CHR 0xE4, CHR 0xBB, CHR 0xB6, CHR 0x29],
     \<comment> \<open>U+7576 U+65E5 U+532F U+7387\<close>
     [CHR 0xE7, CHR 0x95, CHR 0xB6, CHR 0xE6, CHR 0x97, CHR 0xA5, CHR 0xE5, CHR 0x8C,
      CHR 0xAF, CHR 0xE7, CHR 0x8E, CHR 0x87],
     \<comment> \<open>U+8CE3 U+51FA U+532F U+7387\<close>
     [CHR 0xE8, CHR 0xB3, CHR 0xA3, CHR 0xE5, CHR 0x87, CHR 0xBA, CHR 0xE5, CHR 0x8C,
      CHR 0xAF, CHR 0xE7, CHR 0x8E, CHR 0x87],
     \<comment> \<open>U+53F0 U+5E63 U+6210 U+672C ( U+55AE U+4EF6 )\<close>
     [CHR 0xE5, CHR 0x8F, CHR 0xB0, CHR 0xE5, CHR 0xB9, CHR 0xA3, CHR 0xE6, CHR 0x88,
      CHR 0x90, CHR 0xE6, CHR 0x9C, CHR 0xAC, CHR 0x28, CHR 0xE5, CHR 0x96, CHR 0xAE,
      CHR 0xE4, CHR 0xBB, CHR 0xB6, CHR 0x29],
     \<comment> \<open>U+552E U+50F9 ( U+55AE U+4EF6 )\<close>
     [CHR 0xE5, CHR 0x94, CHR 0xAE, CHR 0xE5, CHR 0x83, CHR 0xB9, CHR 0x28, CHR 0xE5,
      CHR 0x96, CHR 0xAE, CHR 0xE4, CHR 0xBB, CHR 0xB6, CHR 0x29],
     \<comment> \<open>U+7E3D U+5229 U+6F64\<close>
     [CHR 0xE7, CHR 0xB8, CHR 0xBD, CHR 0xE5, CHR 0x88, CHR 0xA9, CHR 0xE6, CHR 0xBD,
      CHR 0xA4]]"

text \<open>The \<^verbatim>\<open>headers\<close> array of \<^verbatim>\<open>handleExportCSV\<close>, each title as UTF-8 bytes.\<close>

definition csv_headers :: "string list" where
  "csv_headers =
    [\<comment> \<open>U+65E5 U+671F\<close>
     [CHR 0xE6, CHR 0x97, CHR 0xA5, CHR 0xE6, CHR 0x9C, CHR 0x9F],
     \<comment> \<open>U+570B U+5BB6\<close>
     [CHR 0xE5, CHR 0x9C, CHR 0x8B, CHR 0xE5, CHR 0xAE, CHR 0xB6],
     \<comment> \<open>U+5BA2 U+4EBA U+540D U+5B57\<close>
     [CHR 0xE5, CHR 0xAE, CHR 0xA2, CHR 0xE4, CHR 0xBA, CHR 0xBA, CHR 0xE5, CHR 0x90,
      CHR 0x8D, CHR 0xE5, CHR 0xAD, CHR 0x97],
     \<comment> \<open>U+5546 U+54C1 U+540D U+7A31\<close>
     [CHR 0xE5, CHR 0x95, CHR 0x86, CHR 0xE5, CHR 0x93, CHR 0x81, CHR 0xE5, CHR 0x90,
      CHR 0x8D, CHR 0xE7, CHR 0xA8, CHR 0xB1],
     \<comment> \<open>U+6578 U+91CF\<close>
     [CHR 0xE6, CHR 0x95, CHR 0xB8, CHR 0xE9, CHR 0x87, CHR 0x8F],
     \<comment> \<open>U+5916 U+5E63 U+6210 U+672C ( U+55AE U+4EF6 )\<close>
     [CHR 0xE5, CHR 0xA4, CHR 0x96, CHR 0xE5, CHR 0xB9, CHR 0xA3, CHR 0xE6, CHR 0x88,
      CHR 0x90, CHR 0xE6, CHR 0x9C, CHR 0xAC, CHR 0x28, CHR 0xE5, CHR 0x96, CHR 0xAE,
      CHR 0xE4, CHR 0xBB, CHR 0xB6, CHR 0x29],
     \<comment> \<open>U+7576 U+65E5 U+532F U+7387\<close>
     [CHR 0xE7, CHR 0x95, CHR 0xB6, CHR 0xE6, CHR 0x97, CHR 0xA5, CHR 0xE5, CHR 0x8C,
      CHR 0xAF, CHR 0xE7, CHR 0x8E, CHR 0x87],
     \<comment> \<open>U+8CE3 U+51FA U+532F U+7387\<close>
     [CHR 0xE8, CHR 0xB3, CHR 0xA3, CHR 0xE5, CHR 0x87, CHR 0xBA, CHR 0xE5, CHR 0x8C,
      CHR 0xAF, CHR 0xE7, CHR 0x8E, CHR 0x87],
     \<comment> \<open>U+53F0 U+5E63 U+6210 U+672C ( U+55AE U+4EF6 )\<close>
     [CHR 0xE5, CHR 0x8F, CHR 0xB0, CHR 0xE5, CHR 0xB9, CHR 0xA3, CHR 0xE6, CHR 0x88,
      CHR 0x90, CHR 0xE6, CHR 0x9C, CHR 0xAC, CHR 0x28, CHR 0xE5, CHR 0x96, CHR 0xAE,
      CHR 0xE4, CHR 0xBB, CHR 0xB6, CHR 0x29],
     \<comment> \<open>U+552E U+50F9\<close>
     [CHR 0xE5, CHR 0x94, CHR 0xAE, CHR 0xE5, CHR 0x83, CHR 0xB9],
     \<comment> \<open>U+55AE U+4EF6 U+5229 U+6F64\<close>
     [CHR 0xE5, CHR 0x96, CHR 0xAE, CHR 0xE4, CHR 0xBB, CHR 0xB6, CHR 0xE5, CHR 0x88,
      CHR 0xA9, CHR 0xE6, CHR 0xBD, CHR 0xA4],
     \<comment> \<open>U+7E3D U+5229 U+6F64\<close>
     [CHR 0xE7, CHR 0xB8, CHR 0xBD, CHR 0xE5, CHR 0x88, CHR 0xA9, CHR 0xE6, CHR 0xBD,
      CHR 0xA4]]"

text \<open>
  The array that the callback of \<^verbatim>\<open>handleCopyToClipboard\<close> joins with a tab:
  \<^verbatim>\<open>
  [ new Date(t.date).toLocaleDateString(), getCountryLabel(t.country), t.customerName,
    t.itemName, t.quantity, `${currency}${t.costJpy}`, t.exchangeRate, sellingRate,
    `$${localCostUnit}`, `$${t.priceSold}`, `$${totalProfit}` ]
  \<close>
\<close>

definition clip_cells :: "(number \<Rightarrow> string) \<Rightarrow> (string \<Rightarrow> string) \<Rightarrow> Transaction \<Rightarrow> cell list" where
  "clip_cells numstr localeDate t =
     [S (localeDate (date t)),
      S (getCountryLabel (country t)),
      S (customerName t),
      S (itemName t),
      N (quantity t),
      S (getCurrencySymbol (country t) @ numstr (costJpy t)),
      N (exchangeRate t),
      sellingRate_or (sellingExchangeRate t) ''-'',
      S (''$'' @ numstr (clip_localCostUnit t)),
      S (''$'' @ numstr (priceSold t)),
      S (''$'' @ numstr (clip_totalProfit t))]"

definition clip_row :: "(number \<Rightarrow> string) \<Rightarrow> (string \<Rightarrow> string) \<Rightarrow> Transaction \<Rightarrow> string" where
  "clip_row numstr localeDate t =
     join [CHR 0x09] (map (cell_str numstr) (clip_cells numstr localeDate t))"

text \<open>\<^verbatim>\<open>const rows = transactions.slice().reverse().map(...)\<close>\<close>

definition clip_rows :: "(number \<Rightarrow> string) \<Rightarrow> (string \<Rightarrow> string) \<Rightarrow> Transaction list \<Rightarrow> string list" where
  "clip_rows numstr localeDate ts = map (clip_row numstr localeDate) (rev ts)"

text \<open>\<^verbatim>\<open>const textToCopy = [headers.join('\t'), ...rows].join('\n')\<close>\<close>

definition textToCopy :: "(number \<Rightarrow> string) \<Rightarrow> (string \<Rightarrow> string) \<Rightarrow> Transaction list \<Rightarrow> string" where
  "textToCopy numstr localeDate ts =
     join [CHR 0x0A] (join [CHR 0x09] clip_headers # clip_rows numstr localeDate ts)"

text \<open>
  The array that the callback of \<^verbatim>\<open>handleExportCSV\<close> joins with a comma:
  \<^verbatim>\<open>
  [ new Date(t.date).toLocaleDateString(), countryLabel, `"${t.customerName}"`,
    `"${t.itemName}"`, t.quantity, `"${currencySymbol}${t.costJpy}"`, t.exchangeRate,
    sellingRate, `"$${localCostPerUnit}"`, `"$${t.priceSold}"`, `"$${profitPerUnit}"`,
    `"$${totalProfit}"` ]
  \<close>
  \<open>quoted s\<close> is the template \<^verbatim>\<open>`"${s}"`\<close>.
\<close>

definition quoted :: "string \<Rightarrow> string" where
  "quoted s = [CHR 0x22] @ s @ [CHR 0x22]"

definition csv_cells :: "(number \<Rightarrow> string) \<Rightarrow> (string \<Rightarrow> string) \<Rightarrow> Transaction \<Rightarrow> cell list" where
  "csv_cells numstr localeDate t =
     [S (localeDate (date t)),
      S (csv_countryLabel t),
      S (quoted (customerName t)),
      S (quoted (itemName t)),
      N (quantity t),
      S (quoted (csv_currencySymbol t @ numstr (costJpy t))),
      N (exchangeRate t),
      sellingRate_or (sellingExchangeRate t) [],
      S (quoted (''$'' @ numstr (csv_localCostPerUnit t))),
      S (quoted (''$'' @ numstr (priceSold t))),
      S (quoted (''$'' @ numstr (csv_profitPerUnit t))),
      S (quoted (''$'' @ numstr (csv_totalProfit t)))]"

definition csv_row :: "(number \<Rightarrow> string) \<Rightarrow> (string \<Rightarrow> string) \<Rightarrow> Transaction \<Rightarrow> string" where
  "csv_row numstr localeDate t =
     join '','' (map (cell_str numstr) (csv_cells numstr localeDate t))"

text \<open>\<^verbatim>\<open>const csvRows = transactions.map(...)\<close>\<close>

definition csvRows :: "(number \<Rightarrow> string) \<Rightarrow> (string \<Rightarrow> string) \<Rightarrow> Transaction list \<Rightarrow> string list" where
  "csvRows numstr localeDate ts = map (csv_row numstr localeDate) ts"

text \<open>
  \<^verbatim>\<open>const csvContent = '\uFEFF' + [headers.join(','), ...csvRows].join('\n')\<close>; the
  byte-order mark U+FEFF is the bytes EF BB BF.
\<close>

definition csvContent :: "(number \<Rightarrow> string) \<Rightarrow> (string \<Rightarrow> string) \<Rightarrow> Transaction list \<Rightarrow> string" where
  "csvContent numstr localeDate ts =
     [CHR 0xEF, CHR 0xBB, CHR 0xBF]
     @ join [CHR 0x0A] (join '','' csv_headers # csvRows numstr localeDate ts)"

text \<open>
  The table body of \<^verbatim>\<open>TransactionList\<close> maps over
  \<^verbatim>\<open>transactions.slice().reverse()\<close>; of each row the model keeps the transaction and
  the two derived values it shows.
\<close>

definition table_rows :: "Transaction list \<Rightarrow> (Transaction \<times> number \<times> number) list" where
  "table_rows ts = map (\<lambda>t. (t, table_localCostUnit t, table_totalProfit t)) (rev ts)"

text \<open>A string is quote-wrapped when it has at least two characters and begins and ends with a double quote.\<close>

definition quote_wrapped :: "string \<Rightarrow> bool" where
  "quote_wrapped s = (2 \<le> length s \<and> hd s = CHR 0x22 \<and> last s = CHR 0x22)"

text \<open>The text-bearing cells of a row are those that hold a string.\<close>

fun text_bearing :: "cell \<Rightarrow> bool" where
  "text_bearing (S s) = True"
| "text_bearing (N n) = False"

fun cell_quote_wrapped :: "cell \<Rightarrow> bool" where
  "cell_quote_wrapped (S s) = quote_wrapped s"
| "cell_quote_wrapped (N n) = False"

section \<open>Entry form\<close>

text \<open>
  The \<^verbatim>\<open>formData\<close> state of \<^verbatim>\<open>TransactionForm\<close>: every field is the text of an
  input. The fields carry the prefix \<open>f_\<close> here, as several share a name with a field of
  a transaction.
\<close>

record FormData =
  f_date :: string
  f_customerName :: string
  f_itemName :: string
  f_quantity :: string
  f_costForeign :: string
  f_exchangeRate :: string
  f_sellingExchangeRate :: string
  f_priceSold :: string

text \<open>
  \<^verbatim>\<open>parseInt(s) || d\<close> and \<^verbatim>\<open>parseFloat(s) || d\<close>: the parsed number when there is
  one and it is not falsy, else \<open>d\<close>. A parser returns \<open>None\<close> when the string holds
  no number.
\<close>

definition or_default :: "number option \<Rightarrow> number \<Rightarrow> number" where
  "or_default x d = (case x of None \<Rightarrow> d | Some v \<Rightarrow> if falsy v then d else v)"

text \<open>
  The initial state of \<^verbatim>\<open>TransactionForm\<close>, before any country is chosen: the country
  is \<^verbatim>\<open>'JP'\<close> and the two rates are the strings of the rates of JP in the table.
  \<^verbatim>\<open>
  const [country, setCountry] = useState<Country>('JP');
  const [formData, setFormData] = useState({
    date: new Date().toISOString().split('T')[0], customerName: '', itemName: '',
    quantity: '1', costForeign: '',
    exchangeRate: String(COUNTRY_CONFIG['JP'].rate),
    sellingExchangeRate: String(COUNTRY_CONFIG['JP'].sellingRate), priceSold: '' });
  \<close>
  \<open>today\<close> is the date part of the current time.
\<close>

definition initial_country :: CountryKey where
  "initial_country = JP"

definition initial_formData :: "(number \<Rightarrow> string) \<Rightarrow> string \<Rightarrow> FormData" where
  "initial_formData numstr today =
     \<lparr>f_date = today, f_customerName = [], f_itemName = [], f_quantity = ''1'',
      f_costForeign = [],
      f_exchangeRate = numstr (rate (COUNTRY_CONFIG JP)),
      f_sellingExchangeRate = numstr (sellingRate (COUNTRY_CONFIG JP)),
      f_priceSold = []\<rparr>"

text \<open>
  \<^verbatim>\<open>handleSubmit\<close>, with \<^verbatim>\<open>onAddTransaction\<close> bound to \<^verbatim>\<open>handleAddTransaction\<close> as
  \<^verbatim>\<open>App\<close> binds it. \<^verbatim>\<open>parseInt\<close> and \<^verbatim>\<open>parseFloat\<close> are parameters, and so are
  the generated id (\<^verbatim>\<open>Date.now().toString(36) + Math.random().toString(36).substring(2)\<close>)
  and the current time \<^verbatim>\<open>new Date().toISOString()\<close>. The result is the form data and
  the application state after the call.
\<close>

definition handleSubmit ::
  "(string \<Rightarrow> number option) \<Rightarrow> (string \<Rightarrow> number option) \<Rightarrow> string \<Rightarrow> string
   \<Rightarrow> Country \<Rightarrow> FormData \<Rightarrow> App \<Rightarrow> FormData \<times> App" where
  "handleSubmit parseInt parseFloat newId nowIso form_country formData s =
     (if f_customerName formData = [] \<or> f_itemName formData = [] then (formData, s)
      else
        let quantity' = or_default (parseInt (f_quantity formData)) 1;
            costForeign = or_default (parseFloat (f_costForeign formData)) 0;
            exchangeRate' = or_default (parseFloat (f_exchangeRate formData)) 0;
            sellingExchangeRate' = or_default (parseFloat (f_sellingExchangeRate formData)) 0;
            priceSold' = or_default (parseFloat (f_priceSold formData)) 0;
            newTransaction =
              \<lparr>id_tx = newId,
               country = Some form_country,
               customerName = f_customerName formData,
               itemName = f_itemName formData,
               quantity = quantity',
               costJpy = costForeign,
               exchangeRate = exchangeRate',
               sellingExchangeRate = Some sellingExchangeRate',
               priceSold = priceSold',
               date = (if f_date formData = [] then nowIso else f_date formData)\<rparr>
        in (formData\<lparr>f_customerName := [], f_itemName := [], f_quantity := ''1'',
                      f_costForeign := [], f_priceSold := []\<rparr>,
            handleAddTransaction newTransaction s))"

section \<open>Outbound analysis summary\<close>

text \<open>
  The element of \<^verbatim>\<open>dataSummary\<close> that \<^verbatim>\<open>analyzeSalesData\<close> builds for a
  transaction; the fields carry the prefix \<open>sum_\<close> here.
  \<^verbatim>\<open>
  country: t.country || 'JP', item: t.itemName, qty: t.quantity, cost: t.costJpy,
  rate: t.exchangeRate, sold: t.priceSold,
  profit: (t.priceSold - (t.costJpy * t.exchangeRate)) * t.quantity
  \<close>
\<close>

record SummaryItem =
  sum_country :: string
  sum_item :: string
  sum_qty :: number
  sum_cost :: number
  sum_rate :: number
  sum_sold :: number
  sum_profit :: number

definition summary_item :: "Transaction \<Rightarrow> SummaryItem" where
  "summary_item t =
     \<lparr>sum_country = (case country t of None \<Rightarrow> ''JP'' | Some c \<Rightarrow> if c = [] then ''JP'' else c),
      sum_item = itemName t,
      sum_qty = quantity t,
      sum_cost = costJpy t,
      sum_rate = exchangeRate t,
      sum_sold = priceSold t,
      sum_profit =
        fmul (fsub (priceSold t) (fmul (costJpy t) (exchangeRate t))) (quantity t)\<rparr>"

definition dataSummary :: "Transaction list \<Rightarrow> SummaryItem list" where
  "dataSummary ts = map summary_item ts"

section \<open>Sums and exact ledgers\<close>

text \<open>
  \<open>dsum\<close> is the sum of a list of numbers as \<^verbatim>\<open>reduce\<close> takes it: from the left,
  starting at zero, each addition rounded.
\<close>

definition dsum :: "number list \<Rightarrow> number" where
  "dsum xs = foldl fadd 0 xs"

text \<open>
  A ledger is exact when binary64 arithmetic makes no rounding error on it: every price
  and quantity is a whole number, every rounded unit cost is finite, and the absolute
  values of the sales, of the costs and of the quantities of all its transactions add up
  to at most \<open>2 ^ 53\<close>. \<open>val\<close> is the rational a finite number denotes.
\<close>

fun is_int :: "number \<Rightarrow> bool" where
  "is_int (Fin x) = (of_int \<lfloor>x\<rfloor> = x)"
| "is_int PInf = False"
| "is_int NInf = False"
| "is_int NaN = False"

fun val :: "number \<Rightarrow> rat" where
  "val (Fin x) = x"
| "val PInf = 0"
| "val NInf = 0"
| "val NaN = 0"

definition int_tx :: "Transaction \<Rightarrow> bool" where
  "int_tx t =
     (is_int (priceSold t) \<and> is_int (quantity t)
      \<and> is_int (Math_round (fmul (costJpy t) (exchangeRate t))))"

definition tx_weight :: "Transaction \<Rightarrow> rat" where
  "tx_weight t =
     \<bar>val (priceSold t) * val (quantity t)\<bar>
     + \<bar>val (Math_round (fmul (costJpy t) (exchangeRate t))) * val (quantity t)\<bar>
     + \<bar>val (quantity t)\<bar>"

definition exact_ledger :: "Transaction list \<Rightarrow> bool" where
  "exact_ledger ts = (list_all int_tx ts \<and> (\<Sum>t\<leftarrow>ts. tx_weight t) \<le> 2 ^ 53)"

section \<open>Sample data\<close>

text \<open>
  Concrete inputs for the instances below: the transaction of the specification's
  scenario, a record saved without a country, an idle application state holding the two,
  and a form with and without a customer name. Then a transaction with the price 19.99;
  three transactions with the prices 0.1, 0.2 and 0.3 and no cost; a transaction with
  the price \<open>10 ^ 17\<close> whose converted unit cost is one half; and one with the price 3
  whose converted unit cost is two and a half.
\<close>

definition tx_kr :: Transaction where
  "tx_kr = \<lparr>id_tx = ''k1'', country = Some ''KR'', customerName = ''Wang'', itemName = ''mask'',
            quantity = Fin 2, costJpy = Fin 1000, exchangeRate = dbl (2 / 100),
            sellingExchangeRate = Some (dbl (35 / 1000)), priceSold = Fin 30,
            date = ''2024-01-02''\<rparr>"

definition tx_legacy :: Transaction where
  "tx_legacy = \<lparr>id_tx = ''j7'', country = None, customerName = ''Lin'', itemName = ''tea'',
                quantity = Fin 3, costJpy = Fin 500, exchangeRate = dbl (2 / 10),
                sellingExchangeRate = None, priceSold = Fin 150, date = ''2023-12-24''\<rparr>"

definition tx_frac :: Transaction where
  "tx_frac = \<lparr>id_tx = ''f5'', country = Some ''JP'', customerName = ''Chen'', itemName = ''pen'',
              quantity = Fin 3, costJpy = Fin 50, exchangeRate = dbl (2 / 10),
              sellingExchangeRate = None, priceSold = dbl (1999 / 100),
              date = ''2024-02-01''\<rparr>"

definition tx_p1 :: Transaction where
  "tx_p1 = \<lparr>id_tx = ''p1'', country = Some ''OTHER'', customerName = ''Ho'', itemName = ''gum'',
            quantity = Fin 1, costJpy = Fin 0, exchangeRate = Fin 1,
            sellingExchangeRate = None, priceSold = dbl (1 / 10), date = ''2024-02-02''\<rparr>"

definition tx_p2 :: Transaction where
  "tx_p2 = tx_p1\<lparr>id_tx := ''p2'', priceSold := dbl (2 / 10)\<rparr>"

definition tx_p3 :: Transaction where
  "tx_p3 = tx_p1\<lparr>id_tx := ''p3'', priceSold := dbl (3 / 10)\<rparr>"

definition tx_big :: Transaction where
  "tx_big = \<lparr>id_tx = ''b9'', country = Some ''OTHER'', customerName = ''Ho'', itemName = ''car'',
             quantity = Fin 1, costJpy = Fin 1, exchangeRate = dbl (5 / 10),
             sellingExchangeRate = None, priceSold = Fin 100000000000000000, date = ''2024-02-03''\<rparr>"

definition tx_half :: Transaction where
  "tx_half = \<lparr>id_tx = ''h3'', country = Some ''OTHER'', customerName = ''Ho'', itemName = ''pen'',
              quantity = Fin 2, costJpy = Fin 5, exchangeRate = dbl (5 / 10),
              sellingExchangeRate = None, priceSold = Fin 3, date = ''2024-02-04''\<rparr>"

definition idle :: ModalConfig where
  "idle = \<lparr>isOpen = False, mtype = None, targetId = None\<rparr>"

definition app_two :: App where
  "app_two = \<lparr>transactions = [tx_kr, tx_legacy], modalConfig = idle\<rparr>"

definition fd_blank :: FormData where
  "fd_blank = \<lparr>f_date = ''2024-03-01'', f_customerName = [], f_itemName = ''tea'',
               f_quantity = ''1'', f_costForeign = ''500'', f_exchangeRate = ''0.2'',
               f_sellingExchangeRate = ''0.28'', f_priceSold = ''140''\<rparr>"

definition fd_filled :: FormData where
  "fd_filled = fd_blank\<lparr>f_customerName := ''Lin''\<rparr>"

section \<open>Properties\<close>

subsection \<open>Rounding to binary64\<close>

text \<open>
  \<open>ilog2\<close> is the binary exponent, \<open>round_to_double\<close> is exact on the whole numbers up
  to \<open>2 ^ 53\<close>, and the two rules \<open>round_to_double_eqI\<close> and \<open>round_to_double_tieI\<close>
  give the rounding of a rational from its exponent and its significand.
\<close>

lemma round_even_of_int: "round_even (of_int k) = k"
  by (simp add: round_even_def)

lemma round_even_eqI:
  assumes "of_int m - 1 / 2 < y" "y < of_int m + 1 / 2"
  shows "round_even y = m"
proof (cases "of_int m \<le> y")
  case True
  with assms(2) have f: "\<lfloor>y\<rfloor> = m"
    by (intro floor_unique) auto
  with assms(2) show ?thesis
    by (simp add: round_even_def Let_def)
next
  case False
  with assms(1) have f: "\<lfloor>y\<rfloor> = m - 1"
    by (intro floor_unique) auto
  with assms(1) False show ?thesis
    by (simp add: round_even_def Let_def)
qed

lemma quotient_of_pos:
  assumes "0 < x" "quotient_of x = (p, q)"
  shows "0 < p" "0 < q" "x = of_int p / of_int q"
proof -
  from assms(2) show q: "0 < q" by (rule quotient_of_denom_pos)
  from assms(2) show eq: "x = of_int p / of_int q" by (rule quotient_of_div)
  from assms(1) q eq show "0 < p"
    by (simp add: zero_less_divide_iff)
qed

lemma bitlen_rat_bounds:
  assumes "0 < p"
  shows "(2::rat) powi (bitlen p - 1) \<le> of_int p" "of_int p < (2::rat) powi (bitlen p)"
proof -
  have b1: "1 \<le> bitlen p" using assms by (simp add: bitlen_alt_def)
  have lo: "2 ^ nat (bitlen p - 1) \<le> p" and hi: "p < 2 ^ nat (bitlen p)"
    using bitlen_bounds [OF assms] by auto
  have e1: "(2::rat) powi (bitlen p - 1) = 2 ^ nat (bitlen p - 1)"
    using b1 by (simp add: power_int_def)
  have e2: "(2::rat) powi (bitlen p) = 2 ^ nat (bitlen p)"
    using b1 by (simp add: power_int_def)
  from lo have "(of_int (2 ^ nat (bitlen p - 1)) :: rat) \<le> of_int p"
    by (simp only: of_int_le_iff)
  then show "(2::rat) powi (bitlen p - 1) \<le> of_int p"
    by (simp add: e1)
  from hi have "(of_int p :: rat) < of_int (2 ^ nat (bitlen p))"
    by (simp only: of_int_less_iff)
  then show "of_int p < (2::rat) powi (bitlen p)"
    by (simp add: e2)
qed

lemma powi_unique:
  fixes x :: rat
  assumes "2 powi e \<le> x" "x < 2 powi (e + 1)" "2 powi e' \<le> x" "x < 2 powi (e' + 1)"
  shows "e = e'"
proof -
  have "(2::rat) powi e < 2 powi (e' + 1)" using assms(1,4) by simp
  then have a: "e < e' + 1"
    by (metis linorder_not_less one_le_numeral power_int_increasing)
  have "(2::rat) powi e' < 2 powi (e + 1)" using assms(3,2) by simp
  then have b: "e' < e + 1"
    by (metis linorder_not_less one_le_numeral power_int_increasing)
  from a b show ?thesis by simp
qed

lemma ilog2_bounds:
  assumes "0 < x"
  shows "2 powi (ilog2 x) \<le> x \<and> x < 2 powi (ilog2 x + 1)"
proof -
  obtain p q where pq: "quotient_of x = (p, q)" by (cases "quotient_of x")
  from quotient_of_pos [OF assms pq] have p: "0 < p" and q: "0 < q"
    and x: "x = of_int p / of_int q" by auto
  define d where "d = bitlen p - bitlen q"
  note pr = bitlen_rat_bounds [OF p] and qr = bitlen_rat_bounds [OF q]
  have pos: "(0::rat) < 2 powi k" for k by simp
  have "(2::rat) powi (bitlen p - 1) / 2 powi (bitlen q) < of_int p / of_int q"
    using pr(1) qr(2) q pos by (intro frac_less2) auto
  moreover have "(2::rat) powi (bitlen p - 1) / 2 powi (bitlen q) = 2 powi (d - 1)"
    by (simp add: d_def power_int_diff)
  ultimately have lower: "(2::rat) powi (d - 1) < x" by (simp add: x)
  have "of_int p / of_int q < (2::rat) powi (bitlen p) / 2 powi (bitlen q - 1)"
    using pr(2) qr(1) p pos by (intro frac_less) auto
  moreover have "(2::rat) powi (bitlen p) / 2 powi (bitlen q - 1) = 2 powi (d + 1)"
  proof -
    have "(2::rat) powi (d + 1) = 2 powi (bitlen p - (bitlen q - 1))"
      by (simp add: d_def algebra_simps)
    also have "\<dots> = 2 powi (bitlen p) / 2 powi (bitlen q - 1)"
      by (rule power_int_diff) simp
    finally show ?thesis by simp
  qed
  ultimately have upper: "x < (2::rat) powi (d + 1)" by (simp add: x)
  have il: "ilog2 x = (if 2 powi d \<le> x then d else d - 1)"
    by (simp add: ilog2_def pq d_def Let_def)
  show ?thesis
  proof (cases "2 powi d \<le> x")
    case True
    with il upper show ?thesis by simp
  next
    case False
    with il lower show ?thesis by simp
  qed
qed

lemma ilog2_eqI:
  assumes "2 powi e \<le> x" "x < 2 powi (e + 1)"
  shows "ilog2 x = e"
proof -
  have "(0::rat) < 2 powi e" by simp
  with assms(1) have "0 < x" by linarith
  from ilog2_bounds [OF this] assms show ?thesis
    by (metis powi_unique)
qed

lemma round_to_double_eqI:
  assumes "2 powi e \<le> a" "a < 2 powi (e + 1)" "- 1022 \<le> e"
    and "of_int m - 1 / 2 < a / 2 powi (e - 52)" "a / 2 powi (e - 52) < of_int m + 1 / 2"
    and "of_int m * 2 powi (e - 52) < (2::rat) powi 1024"
  shows "round_to_double a = Fin (of_int m * 2 powi (e - 52))"
    and "round_to_double (- a) = Fin (- (of_int m * 2 powi (e - 52)))"
proof -
  have "(0::rat) < 2 powi e" by simp
  with assms(1) have a: "0 < a" by linarith
  have il: "ilog2 a = e" using assms(1,2) by (rule ilog2_eqI)
  have re: "round_even (a / 2 powi (e - 52)) = m"
    using assms(4,5) by (rule round_even_eqI)
  from a il re assms(3,6) show "round_to_double a = Fin (of_int m * 2 powi (e - 52))"
    by (simp add: round_to_double_def Let_def max_def)
  from a il re assms(3,6) show "round_to_double (- a) = Fin (- (of_int m * 2 powi (e - 52)))"
    by (simp add: round_to_double_def Let_def max_def)
qed

lemma abs_int_ge_1:
  fixes x :: rat
  assumes "x \<in> \<int>" "x \<noteq> 0"
  shows "1 \<le> \<bar>x\<bar>"
proof -
  from assms(1) obtain k :: int where k: "x = of_int k" by (auto elim: Ints_cases)
  with assms(2) have "k \<noteq> 0" by auto
  then have "1 \<le> \<bar>k\<bar>" by simp
  then have "(of_int 1 :: rat) \<le> of_int \<bar>k\<bar>" by (simp only: of_int_le_iff)
  with k show ?thesis by simp
qed

lemma round_to_double_int:
  assumes "x \<in> \<int>" "\<bar>x\<bar> \<le> 2 ^ 53"
  shows "round_to_double x = Fin x"
proof (cases "x = 0")
  case True
  then show ?thesis by (simp add: round_to_double_def)
next
  case False
  define a where "a = \<bar>x\<bar>"
  define e where "e = ilog2 a"
  have a1: "1 \<le> a" using assms(1) False by (simp add: a_def abs_int_ge_1)
  then have apos: "0 < a" by simp
  from assms(1) obtain k :: int where k: "a = of_int k"
    unfolding a_def by (metis Ints_cases of_int_abs)
  have b: "2 powi e \<le> a" "a < 2 powi (e + 1)"
    using ilog2_bounds [OF apos] by (simp_all add: e_def)
  have e0: "0 \<le> e"
  proof (rule ccontr)
    assume "\<not> 0 \<le> e"
    then have "e + 1 \<le> 0" by simp
    then have "(2::rat) powi (e + 1) \<le> 2 powi 0"
      by (intro power_int_increasing) auto
    with b(2) a1 show False by simp
  qed
  have e53: "e \<le> 53"
  proof (rule ccontr)
    assume "\<not> e \<le> 53"
    then have "54 \<le> e" by simp
    then have "(2::rat) powi 54 \<le> 2 powi e"
      by (intro power_int_increasing) auto
    with b(1) assms(2) show False by (simp add: a_def)
  qed
  have "\<exists>K. a / 2 powi (e - 52) = of_int K"
  proof (cases "e \<le> 52")
    case True
    define n where "n = nat (52 - e)"
    have "(2::rat) powi (e - 52) = inverse (2 powi (52 - e))"
      by (metis minus_diff_eq power_int_minus)
    also have "(2::rat) powi (52 - e) = 2 ^ n"
      using True by (simp add: n_def power_int_def)
    finally have "a / 2 powi (e - 52) = of_int (k * 2 ^ n)"
      by (simp add: k field_simps)
    then show ?thesis by blast
  next
    case False
    with e53 have e: "e = 53" by simp
    with b(1) assms(2) have "a = 2 ^ 53" by (simp add: a_def)
    with e have "a / 2 powi (e - 52) = of_int (2 ^ 52)" by simp
    then show ?thesis by blast
  qed
  then obtain K where K: "a / 2 powi (e - 52) = of_int K" by blast
  have y: "of_int (round_even (a / 2 powi (e - 52))) * 2 powi (e - 52) = a"
    by (simp add: K round_even_of_int) (simp add: K [symmetric])
  have small: "\<not> (2::rat) powi 1024 \<le> a"
    using assms(2) by (simp add: a_def)
  have mx: "max e (- 1022) = e" using e0 by simp
  show ?thesis
    using False y small mx
    by (simp add: round_to_double_def Let_def a_def [symmetric] e_def [symmetric])
      (simp add: a_def)
qed

lemma foldl_fadd_exact:
  assumes "acc \<in> \<int>" "\<forall>x\<in>set xs. x \<in> \<int>" "\<bar>acc\<bar> + (\<Sum>x\<leftarrow>xs. \<bar>x\<bar>) \<le> 2 ^ 53"
  shows "foldl fadd (Fin acc) (map Fin xs) = Fin (acc + sum_list xs)"
  using assms
proof (induction xs arbitrary: acc)
  case Nil
  then show ?case by simp
next
  case (Cons x xs)
  have xi: "x \<in> \<int>" using Cons.prems(2) by simp
  have nn: "0 \<le> (\<Sum>x\<leftarrow>xs. \<bar>x\<bar>)" by (rule sum_list_nonneg) auto
  have "\<bar>acc + x\<bar> \<le> \<bar>acc\<bar> + \<bar>x\<bar>" by (rule abs_triangle_ineq)
  with Cons.prems(3) nn have bnd: "\<bar>acc + x\<bar> \<le> 2 ^ 53"
    and bnd': "\<bar>acc + x\<bar> + (\<Sum>x\<leftarrow>xs. \<bar>x\<bar>) \<le> 2 ^ 53" by simp_all
  have step: "fadd (Fin acc) (Fin x) = Fin (acc + x)"
    using Cons.prems(1) xi bnd by (simp add: round_to_double_int)
  have "foldl fadd (Fin (acc + x)) (map Fin xs) = Fin (acc + x + sum_list xs)"
    using Cons.prems(1,2) xi bnd' by (intro Cons.IH) auto
  with step show ?case by (simp add: add.assoc)
qed

lemma round_even_tie:
  assumes "y = of_int k + 1 / 2"
  shows "round_even y = (if even k then k else k + 1)"
proof -
  have f: "\<lfloor>y\<rfloor> = k"
    using assms by (intro floor_unique) auto
  show ?thesis
    unfolding round_even_def Let_def f by (simp add: assms)
qed

lemma round_to_double_tieI:
  assumes "2 powi e \<le> a" "a < 2 powi (e + 1)" "- 1022 \<le> e"
    and "a / 2 powi (e - 52) = of_int k + 1 / 2" "m = (if even k then k else k + 1)"
    and "of_int m * 2 powi (e - 52) < (2::rat) powi 1024"
  shows "round_to_double a = Fin (of_int m * 2 powi (e - 52))"
    and "round_to_double (- a) = Fin (- (of_int m * 2 powi (e - 52)))"
proof -
  have "(0::rat) < 2 powi e" by simp
  with assms(1) have a: "0 < a" by linarith
  have il: "ilog2 a = e" using assms(1,2) by (rule ilog2_eqI)
  have re: "round_even (a / 2 powi (e - 52)) = m"
    using round_even_tie [OF assms(4)] assms(5) by simp
  from a il re assms(3,6) show "round_to_double a = Fin (of_int m * 2 powi (e - 52))"
    by (simp add: round_to_double_def Let_def max_def)
  from a il re assms(3,6) show "round_to_double (- a) = Fin (- (of_int m * 2 powi (e - 52)))"
    by (simp add: round_to_double_def Let_def max_def)
qed


lemma floor_add_half: "\<lfloor>of_int k + 1 / 2 :: rat\<rfloor> = k"
  by (rule floor_unique) auto

lemma Math_round_int: "Math_round (Fin (of_int k)) = Fin (of_int k)"
  by (simp add: floor_add_half)

lemma Math_round_numeral: "Math_round (Fin (numeral n)) = Fin (numeral n)"
  using Math_round_int [of "numeral n"] by simp

lemma Math_round_half: "Math_round (Fin (of_int k + 1 / 2)) = Fin (of_int k + 1)"
proof -
  have "\<lfloor>of_int k + 1 / 2 + 1 / 2 :: rat\<rfloor> = k + 1"
    by (rule floor_unique) auto
  then show ?thesis by simp
qed

lemma Math_round_one_half: "Math_round (Fin (1 / 2)) = Fin 1"
  using Math_round_half [of 0] by simp

subsection \<open>The operations on the sample values\<close>

text \<open>
  Each fact is one rounded operation on values of the sample transactions, with its
  exponent and significand.
\<close>

lemma dbl_1999: "dbl (1999 / 100) = Fin (5626684784446013 / 2 ^ 48)"
  using round_to_double_eqI(1) [of 4 "1999 / 100" 5626684784446013]
  by (simp add: dbl_def)

lemma dbl_02: "dbl (2 / 10) = Fin (3602879701896397 / 2 ^ 54)"
  using round_to_double_eqI(1) [of "- 3" "2 / 10" 7205759403792794]
  by (simp add: dbl_def)

lemma mul_50_02: "fmul (Fin 50) (Fin (3602879701896397 / 2 ^ 54)) = Fin 10"
  using round_to_double_eqI(1) [of 3 "50 * (3602879701896397 / 2 ^ 54)" 5629499534213120]
  by (simp add: fsub_def)

lemma sub_1999_10: "fsub (Fin (5626684784446013 / 2 ^ 48)) (Fin 10) = Fin (2811935017339453 / 2 ^ 48)"
  using round_to_double_eqI(1) [of 3 "(5626684784446013 / 2 ^ 48) - 10" 5623870034678906]
  by (simp add: fsub_def)

lemma mul_999_3: "fmul (Fin (2811935017339453 / 2 ^ 48)) (Fin 3) = Fin (8435805052018359 / 2 ^ 48)"
  using round_to_double_eqI(1) [of 4 "(2811935017339453 / 2 ^ 48) * 3" 8435805052018359]
  by (simp add: fsub_def)

lemma mul_1999_3: "fmul (Fin (5626684784446013 / 2 ^ 48)) (Fin 3) = Fin (2110006794167255 / 2 ^ 45)"
  using round_to_double_tieI(1) [of 5 "(5626684784446013 / 2 ^ 48) * 3" 8440027176669019 8440027176669020]
  by (simp add: fsub_def)

lemma mul_10_3: "fmul (Fin 10) (Fin 3) = Fin 30"
  using round_to_double_eqI(1) [of 4 "10 * 3" 8444249301319680]
  by (simp add: fsub_def)

lemma sub_5997_30: "fsub (Fin (2110006794167255 / 2 ^ 45)) (Fin 30) = Fin (1054475631502295 / 2 ^ 45)"
  using round_to_double_eqI(1) [of 4 "(2110006794167255 / 2 ^ 45) - 30" 8435805052018360]
  by (simp add: fsub_def)


lemma dbl_002: "dbl (2 / 100) = Fin (5764607523034235 / 2 ^ 58)"
  using round_to_double_eqI(1) [of "- 6" "2 / 100" 5764607523034235]
  by (simp add: dbl_def)

lemma mul_1000_002: "fmul (Fin 1000) (Fin (5764607523034235 / 2 ^ 58)) = Fin 20"
  using round_to_double_eqI(1) [of 4 "1000 * (5764607523034235 / 2 ^ 58)" 5629499534213120]
  by (simp add: fsub_def)

lemma dbl_01: "dbl (1 / 10) = Fin (3602879701896397 / 2 ^ 55)"
  using round_to_double_eqI(1) [of "- 4" "1 / 10" 7205759403792794]
  by (simp add: dbl_def)

lemma dbl_03: "dbl (3 / 10) = Fin (5404319552844595 / 2 ^ 54)"
  using round_to_double_eqI(1) [of "- 2" "3 / 10" 5404319552844595]
  by (simp add: dbl_def)

lemma mul_01_1: "fmul (Fin (3602879701896397 / 2 ^ 55)) (Fin 1) = Fin (3602879701896397 / 2 ^ 55)"
  using round_to_double_eqI(1) [of "- 4" "(3602879701896397 / 2 ^ 55) * 1" 7205759403792794]
  by (simp add: fsub_def)

lemma mul_02_1: "fmul (Fin (3602879701896397 / 2 ^ 54)) (Fin 1) = Fin (3602879701896397 / 2 ^ 54)"
  using round_to_double_eqI(1) [of "- 3" "(3602879701896397 / 2 ^ 54) * 1" 7205759403792794]
  by (simp add: fsub_def)

lemma mul_03_1: "fmul (Fin (5404319552844595 / 2 ^ 54)) (Fin 1) = Fin (5404319552844595 / 2 ^ 54)"
  using round_to_double_eqI(1) [of "- 2" "(5404319552844595 / 2 ^ 54) * 1" 5404319552844595]
  by (simp add: fsub_def)

lemma add_0_01: "fadd (Fin 0) (Fin (3602879701896397 / 2 ^ 55)) = Fin (3602879701896397 / 2 ^ 55)"
  using round_to_double_eqI(1) [of "- 4" "0 + (3602879701896397 / 2 ^ 55)" 7205759403792794]
  by (simp add: fsub_def)

lemma add_01_02: "fadd (Fin (3602879701896397 / 2 ^ 55)) (Fin (3602879701896397 / 2 ^ 54)) = Fin (1351079888211149 / 2 ^ 52)"
  using round_to_double_tieI(1) [of "- 2" "(3602879701896397 / 2 ^ 55) + (3602879701896397 / 2 ^ 54)" 5404319552844595 5404319552844596]
  by (simp add: fsub_def)

lemma add_012_03: "fadd (Fin (1351079888211149 / 2 ^ 52)) (Fin (5404319552844595 / 2 ^ 54)) = Fin (1351079888211149 / 2 ^ 51)"
  using round_to_double_tieI(1) [of "- 1" "(1351079888211149 / 2 ^ 52) + (5404319552844595 / 2 ^ 54)" 5404319552844595 5404319552844596]
  by (simp add: fsub_def)

lemma add_0_03: "fadd (Fin 0) (Fin (5404319552844595 / 2 ^ 54)) = Fin (5404319552844595 / 2 ^ 54)"
  using round_to_double_eqI(1) [of "- 2" "0 + (5404319552844595 / 2 ^ 54)" 5404319552844595]
  by (simp add: fsub_def)

lemma add_03_02: "fadd (Fin (5404319552844595 / 2 ^ 54)) (Fin (3602879701896397 / 2 ^ 54)) = Fin (1 / 2)"
  using round_to_double_eqI(1) [of "- 1" "(5404319552844595 / 2 ^ 54) + (3602879701896397 / 2 ^ 54)" 4503599627370496]
  by (simp add: fsub_def)

lemma add_032_01: "fadd (Fin (1 / 2)) (Fin (3602879701896397 / 2 ^ 55)) = Fin (5404319552844595 / 2 ^ 53)"
  using round_to_double_eqI(1) [of "- 1" "(1 / 2) + (3602879701896397 / 2 ^ 55)" 5404319552844595]
  by (simp add: fsub_def)

lemma dbl_05: "dbl (5 / 10) = Fin (1 / 2)"
  using round_to_double_eqI(1) [of "- 1" "5 / 10" 4503599627370496]
  by (simp add: dbl_def)

lemma mul_1_05: "fmul (Fin 1) (Fin (1 / 2)) = Fin (1 / 2)"
  using round_to_double_eqI(1) [of "- 1" "1 * (1 / 2)" 4503599627370496]
  by (simp add: fsub_def)

lemma sub_big_05: "fsub (Fin 100000000000000000) (Fin (1 / 2)) = Fin 100000000000000000"
  using round_to_double_eqI(1) [of 56 "100000000000000000 - (1 / 2)" 6250000000000000]
  by (simp add: fsub_def)

lemma sub_big_1: "fsub (Fin 100000000000000000) (Fin 1) = Fin 100000000000000000"
  using round_to_double_eqI(1) [of 56 "100000000000000000 - 1" 6250000000000000]
  by (simp add: fsub_def)

lemma mul_big_1: "fmul (Fin 100000000000000000) (Fin 1) = Fin 100000000000000000"
  using round_to_double_eqI(1) [of 56 "100000000000000000 * 1" 6250000000000000]
  by (simp add: fsub_def)

lemma mul_5_05: "fmul (Fin 5) (Fin (1 / 2)) = Fin (5 / 2)"
  using round_to_double_eqI(1) [of 1 "5 * (1 / 2)" 5629499534213120]
  by (simp add: fsub_def)

lemma sub_3_25: "fsub (Fin 3) (Fin (5 / 2)) = Fin (1 / 2)"
  using round_to_double_eqI(1) [of "- 1" "3 - (5 / 2)" 4503599627370496]
  by (simp add: fsub_def)

lemma mul_05_2: "fmul (Fin (1 / 2)) (Fin 2) = Fin 1"
  using round_to_double_eqI(1) [of 0 "(1 / 2) * 2" 4503599627370496]
  by (simp add: fsub_def)

lemma sub_3_3: "fsub (Fin 3) (Fin 3) = Fin 0"
  by (simp add: round_to_double_def fsub_def)

lemma mul_0_2: "fmul (Fin 0) (Fin 2) = Fin 0"
  by (simp add: round_to_double_def fsub_def)

lemma mul_3_2: "fmul (Fin 3) (Fin 2) = Fin 6"
  using round_to_double_eqI(1) [of 2 "3 * 2" 6755399441055744]
  by (simp add: fsub_def)

lemma sub_6_6: "fsub (Fin 6) (Fin 6) = Fin 0"
  by (simp add: round_to_double_def fsub_def)

lemma mul_500_02: "fmul (Fin 500) (Fin (3602879701896397 / 2 ^ 54)) = Fin 100"
  using round_to_double_eqI(1) [of 6 "500 * (3602879701896397 / 2 ^ 54)" 7036874417766400]
  by (simp add: fsub_def)

subsection \<open>The sample transactions\<close>

lemma kr_unit: "Math_round (fmul (costJpy tx_kr) (exchangeRate tx_kr)) = Fin 20"
  by (simp only: tx_kr_def Transaction.select_convs dbl_002 mul_1000_002 Math_round_numeral)

lemma legacy_unit: "Math_round (fmul (costJpy tx_legacy) (exchangeRate tx_legacy)) = Fin 100"
  by (simp only: tx_legacy_def Transaction.select_convs dbl_02 mul_500_02 Math_round_numeral)

lemma frac_unit: "Math_round (fmul (costJpy tx_frac) (exchangeRate tx_frac)) = Fin 10"
  by (simp only: tx_frac_def Transaction.select_convs dbl_02 mul_50_02 Math_round_numeral)

lemma frac_clip: "clip_totalProfit tx_frac = Fin (8435805052018359 / 2 ^ 48)"
  unfolding clip_totalProfit_def clip_localCostUnit_def frac_unit
  by (simp only: tx_frac_def Transaction.select_convs dbl_1999 sub_1999_10 mul_999_3)

lemma frac_table: "table_totalProfit tx_frac = Fin (8435805052018359 / 2 ^ 48)"
  unfolding table_totalProfit_def table_localCostUnit_def frac_unit
  by (simp only: tx_frac_def Transaction.select_convs dbl_1999 sub_1999_10 mul_999_3)

lemma frac_csv: "csv_totalProfit tx_frac = Fin (1054475631502295 / 2 ^ 45)"
  unfolding csv_totalProfit_def csv_totalSales_def csv_localCostTotal_def
    csv_localCostPerUnit_def frac_unit
  by (simp only: tx_frac_def Transaction.select_convs dbl_1999 mul_1999_3 mul_10_3 sub_5997_30)

lemma sales_p1: "fmul (priceSold tx_p1) (quantity tx_p1) = Fin (3602879701896397 / 2 ^ 55)"
  by (simp only: tx_p1_def Transaction.select_convs dbl_01 mul_01_1)

lemma sales_p2: "fmul (priceSold tx_p2) (quantity tx_p2) = Fin (3602879701896397 / 2 ^ 54)"
  by (simp only: tx_p2_def tx_p1_def Transaction.select_convs Transaction.update_convs
      dbl_02 mul_02_1)

lemma sales_p3: "fmul (priceSold tx_p3) (quantity tx_p3) = Fin (5404319552844595 / 2 ^ 54)"
  by (simp only: tx_p3_def tx_p1_def Transaction.select_convs Transaction.update_convs
      dbl_03 mul_03_1)

lemma big_product: "fmul (costJpy tx_big) (exchangeRate tx_big) = Fin (1 / 2)"
  by (simp only: tx_big_def Transaction.select_convs dbl_05 mul_1_05)

lemma big_summary: "sum_profit (summary_item tx_big) = Fin 100000000000000000"
  unfolding summary_item_def SummaryItem.select_convs big_product
  by (simp only: tx_big_def Transaction.select_convs sub_big_05 mul_big_1)

lemma big_table: "table_totalProfit tx_big = Fin 100000000000000000"
  unfolding table_totalProfit_def table_localCostUnit_def big_product Math_round_one_half
  by (simp only: tx_big_def Transaction.select_convs sub_big_1 mul_big_1)

lemma half_product: "fmul (costJpy tx_half) (exchangeRate tx_half) = Fin (5 / 2)"
  by (simp only: tx_half_def Transaction.select_convs dbl_05 mul_5_05)

subsection \<open>The aggregator as four sums\<close>

lemma stats_foldl:
  "foldl stats_step acc ts =
     \<lparr>totalSales = foldl fadd (totalSales acc)
        (map (\<lambda>t. fmul (priceSold t) (quantity t)) ts),
      totalCost = foldl fadd (totalCost acc)
        (map (\<lambda>t. fmul (Math_round (fmul (costJpy t) (exchangeRate t))) (quantity t)) ts),
      totalProfit = foldl fadd (totalProfit acc)
        (map (\<lambda>t. fsub (fmul (priceSold t) (quantity t))
                    (fmul (Math_round (fmul (costJpy t) (exchangeRate t))) (quantity t))) ts),
      itemCount = foldl fadd (itemCount acc) (map quantity ts)\<rparr>"
proof (induction ts arbitrary: acc)
  case Nil
  show ?case by simp
next
  case (Cons t ts)
  show ?case
    by (simp only: foldl_Cons Cons.IH) (simp add: stats_step_def Let_def)
qed

lemma stats_dsum:
  "stats ts =
     \<lparr>totalSales = dsum (map (\<lambda>t. fmul (priceSold t) (quantity t)) ts),
      totalCost =
        dsum (map (\<lambda>t. fmul (Math_round (fmul (costJpy t) (exchangeRate t))) (quantity t)) ts),
      totalProfit =
        dsum (map (\<lambda>t. fsub (fmul (priceSold t) (quantity t))
                    (fmul (Math_round (fmul (costJpy t) (exchangeRate t))) (quantity t))) ts),
      itemCount = dsum (map quantity ts)\<rparr>"
  by (simp add: stats_def stats_foldl dsum_def)

lemma totalSales_stats:
  "totalSales (stats ts) = dsum (map (\<lambda>t. fmul (priceSold t) (quantity t)) ts)"
  by (simp add: stats_dsum)

lemma sales_forward:
  "totalSales (stats [tx_p1, tx_p2, tx_p3]) = Fin (1351079888211149 / 2 ^ 51)"
  by (simp only: totalSales_stats dsum_def list.map foldl.simps zero_number_def
      sales_p1 sales_p2 sales_p3 add_0_01 add_01_02 add_012_03)

lemma sales_backward:
  "totalSales (stats [tx_p3, tx_p2, tx_p1]) = Fin (5404319552844595 / 2 ^ 53)"
  by (simp only: totalSales_stats dsum_def list.map foldl.simps zero_number_def
      sales_p1 sales_p2 sales_p3 add_0_03 add_03_02 add_032_01)


lemma sum_list_map_mset:
  fixes f :: "'a \<Rightarrow> rat"
  assumes "mset xs = mset ys"
  shows "(\<Sum>x\<leftarrow>xs. f x) = (\<Sum>x\<leftarrow>ys. f x)"
proof -
  from assms have "mset (map f xs) = mset (map f ys)"
    by (metis mset_map)
  then have "sum_mset (mset (map f xs)) = sum_mset (mset (map f ys))"
    by simp
  then show ?thesis
    by (simp only: sum_mset_sum_list)
qed

lemma is_int_val:
  assumes "is_int n"
  shows "n = Fin (val n)" and "val n \<in> \<int>"
proof -
  from assms obtain x where n: "n = Fin x"
    by (cases n) simp_all
  with assms have x: "of_int \<lfloor>x\<rfloor> = x"
    by (simp only: is_int.simps)
  from n show "n = Fin (val n)" by simp
  have "x \<in> \<int>" by (metis x Ints_of_int)
  with n show "val n \<in> \<int>" by simp
qed

lemma member_le_sum_list_nonneg:
  fixes f :: "'a \<Rightarrow> rat"
  assumes "\<forall>x\<in>set xs. 0 \<le> f x" "x \<in> set xs"
  shows "f x \<le> (\<Sum>y\<leftarrow>xs. f y)"
  using assms
proof (induction xs)
  case Nil
  then show ?case by simp
next
  case (Cons y ys)
  have nn: "0 \<le> (\<Sum>z\<leftarrow>ys. f z)"
    using Cons.prems(1) by (intro sum_list_nonneg) auto
  show ?case
  proof (cases "x = y")
    case True
    with nn show ?thesis by simp
  next
    case False
    with Cons.prems have "x \<in> set ys" by simp
    with Cons.IH Cons.prems(1) have "f x \<le> (\<Sum>z\<leftarrow>ys. f z)" by simp
    moreover have "0 \<le> f y" using Cons.prems(1) by simp
    ultimately show ?thesis by simp
  qed
qed

lemma tx_weight_nonneg: "0 \<le> tx_weight t"
  by (simp add: tx_weight_def)

lemma tx_exact:
  assumes "int_tx t" "tx_weight t \<le> 2 ^ 53"
  shows "fmul (priceSold t) (quantity t) = Fin (val (priceSold t) * val (quantity t))"
    and "fmul (Math_round (fmul (costJpy t) (exchangeRate t))) (quantity t)
          = Fin (val (Math_round (fmul (costJpy t) (exchangeRate t))) * val (quantity t))"
    and "fsub (fmul (priceSold t) (quantity t))
           (fmul (Math_round (fmul (costJpy t) (exchangeRate t))) (quantity t))
          = Fin (val (priceSold t) * val (quantity t)
                 - val (Math_round (fmul (costJpy t) (exchangeRate t))) * val (quantity t))"
    and "quantity t = Fin (val (quantity t))"
    and "val (priceSold t) * val (quantity t) \<in> \<int>"
    and "val (Math_round (fmul (costJpy t) (exchangeRate t))) * val (quantity t) \<in> \<int>"
    and "val (quantity t) \<in> \<int>"
proof -
  define p where "p = val (priceSold t)"
  define q where "q = val (quantity t)"
  define u where "u = val (Math_round (fmul (costJpy t) (exchangeRate t)))"
  from assms(1) have ip: "is_int (priceSold t)" and iq: "is_int (quantity t)"
    and iu: "is_int (Math_round (fmul (costJpy t) (exchangeRate t)))"
    by (simp_all add: int_tx_def)
  have P: "priceSold t = Fin p" "p \<in> \<int>"
    using is_int_val [OF ip] by (simp_all only: p_def)
  have Q: "quantity t = Fin q" "q \<in> \<int>"
    using is_int_val [OF iq] by (simp_all only: q_def)
  have U: "Math_round (fmul (costJpy t) (exchangeRate t)) = Fin u" "u \<in> \<int>"
    using is_int_val [OF iu] by (simp_all only: u_def)
  have w: "\<bar>p * q\<bar> + \<bar>u * q\<bar> + \<bar>q\<bar> \<le> 2 ^ 53"
    using assms(2) by (simp only: tx_weight_def p_def q_def u_def)
  have pq: "p * q \<in> \<int>" and uq: "u * q \<in> \<int>" using P(2) Q(2) U(2) by simp_all
  define A where "A = \<bar>p * q\<bar>"
  define B where "B = \<bar>u * q\<bar>"
  define C where "C = \<bar>q\<bar>"
  have nn: "0 \<le> A" "0 \<le> B" "0 \<le> C" by (simp_all add: A_def B_def C_def)
  have w': "A + B + C \<le> 2 ^ 53" using w by (simp only: A_def B_def C_def)
  have "A \<le> 2 ^ 53" and "B \<le> 2 ^ 53" and ab: "A + B \<le> 2 ^ 53"
    using nn w' by linarith+
  then have b1: "\<bar>p * q\<bar> \<le> 2 ^ 53" and b2: "\<bar>u * q\<bar> \<le> 2 ^ 53"
    by (simp_all only: A_def B_def)
  have "\<bar>p * q - u * q\<bar> \<le> A + B" unfolding A_def B_def by (rule abs_triangle_ineq4)
  then have b3: "\<bar>p * q - u * q\<bar> \<le> 2 ^ 53" using ab by (rule order_trans)
  have s: "fmul (Fin p) (Fin q) = Fin (p * q)"
    using pq b1 by (simp add: round_to_double_int)
  have c: "fmul (Fin u) (Fin q) = Fin (u * q)"
    using uq b2 by (simp add: round_to_double_int)
  have d: "fsub (Fin (p * q)) (Fin (u * q)) = Fin (p * q - u * q)"
    using pq uq b3 by (simp add: fsub_def round_to_double_int)
  have "fmul (priceSold t) (quantity t) = Fin (p * q)"
    by (simp only: P(1) Q(1) s)
  then show "fmul (priceSold t) (quantity t) = Fin (val (priceSold t) * val (quantity t))"
    by (simp only: p_def q_def)
  have "fmul (Math_round (fmul (costJpy t) (exchangeRate t))) (quantity t) = Fin (u * q)"
    by (simp only: U(1) Q(1) c)
  then show "fmul (Math_round (fmul (costJpy t) (exchangeRate t))) (quantity t)
          = Fin (val (Math_round (fmul (costJpy t) (exchangeRate t))) * val (quantity t))"
    by (simp only: u_def q_def)
  have "fsub (fmul (priceSold t) (quantity t))
           (fmul (Math_round (fmul (costJpy t) (exchangeRate t))) (quantity t))
          = Fin (p * q - u * q)"
    by (simp only: P(1) Q(1) U(1) s c d)
  then show "fsub (fmul (priceSold t) (quantity t))
           (fmul (Math_round (fmul (costJpy t) (exchangeRate t))) (quantity t))
          = Fin (val (priceSold t) * val (quantity t)
                 - val (Math_round (fmul (costJpy t) (exchangeRate t))) * val (quantity t))"
    by (simp only: p_def q_def u_def)
  from Q(1) show "quantity t = Fin (val (quantity t))" by (simp only: q_def)
  from pq show "val (priceSold t) * val (quantity t) \<in> \<int>" by (simp only: p_def q_def)
  from uq show "val (Math_round (fmul (costJpy t) (exchangeRate t))) * val (quantity t) \<in> \<int>"
    by (simp only: u_def q_def)
  from Q(2) show "val (quantity t) \<in> \<int>" by (simp only: q_def)
qed

lemma dsum_exact:
  assumes "\<forall>t\<in>set ts. f t = Fin (g t) \<and> g t \<in> \<int>" and "(\<Sum>t\<leftarrow>ts. \<bar>g t\<bar>) \<le> 2 ^ 53"
  shows "dsum (map f ts) = Fin (\<Sum>t\<leftarrow>ts. g t)"
proof -
  have m: "map f ts = map Fin (map g ts)"
    using assms(1) by simp
  have "foldl fadd (Fin 0) (map Fin (map g ts)) = Fin (0 + sum_list (map g ts))"
    using assms by (intro foldl_fadd_exact) (auto simp add: comp_def)
  then show ?thesis
    by (simp add: dsum_def zero_number_def m)
qed

lemma stats_exact:
  assumes "exact_ledger ts"
  shows "stats ts =
     \<lparr>totalSales = Fin (\<Sum>t\<leftarrow>ts. val (priceSold t) * val (quantity t)),
      totalCost = Fin (\<Sum>t\<leftarrow>ts.
        val (Math_round (fmul (costJpy t) (exchangeRate t))) * val (quantity t)),
      totalProfit = Fin (\<Sum>t\<leftarrow>ts. val (priceSold t) * val (quantity t)
        - val (Math_round (fmul (costJpy t) (exchangeRate t))) * val (quantity t)),
      itemCount = Fin (\<Sum>t\<leftarrow>ts. val (quantity t))\<rparr>"
proof -
  from assms have all: "\<forall>t\<in>set ts. int_tx t" and tot: "(\<Sum>t\<leftarrow>ts. tx_weight t) \<le> 2 ^ 53"
    by (simp_all add: exact_ledger_def list_all_iff)
  have wt: "tx_weight t \<le> 2 ^ 53" if "t \<in> set ts" for t
  proof -
    have "tx_weight t \<le> (\<Sum>t\<leftarrow>ts. tx_weight t)"
      using that by (intro member_le_sum_list_nonneg) (auto simp add: tx_weight_nonneg)
    with tot show ?thesis by linarith
  qed
  have bound: "(\<Sum>t\<leftarrow>ts. \<bar>g t\<bar>) \<le> 2 ^ 53" if "\<And>t. \<bar>g t\<bar> \<le> tx_weight t" for g
  proof -
    have "(\<Sum>t\<leftarrow>ts. \<bar>g t\<bar>) \<le> (\<Sum>t\<leftarrow>ts. tx_weight t)"
      using that by (intro sum_list_mono) auto
    with tot show ?thesis by linarith
  qed
  have s: "dsum (map (\<lambda>t. fmul (priceSold t) (quantity t)) ts)
      = Fin (\<Sum>t\<leftarrow>ts. val (priceSold t) * val (quantity t))"
    using all wt tx_exact(1,5)
    by (intro dsum_exact bound) (auto simp add: tx_weight_def)
  have c: "dsum (map (\<lambda>t. fmul (Math_round (fmul (costJpy t) (exchangeRate t))) (quantity t)) ts)
      = Fin (\<Sum>t\<leftarrow>ts.
          val (Math_round (fmul (costJpy t) (exchangeRate t))) * val (quantity t))"
    using all wt tx_exact(2,6)
    by (intro dsum_exact bound) (auto simp add: tx_weight_def)
  have p: "dsum (map (\<lambda>t. fsub (fmul (priceSold t) (quantity t))
                    (fmul (Math_round (fmul (costJpy t) (exchangeRate t))) (quantity t))) ts)
      = Fin (\<Sum>t\<leftarrow>ts. val (priceSold t) * val (quantity t)
          - val (Math_round (fmul (costJpy t) (exchangeRate t))) * val (quantity t))"
  proof (intro dsum_exact bound)
    show "\<forall>t\<in>set ts.
       fsub (fmul (priceSold t) (quantity t))
        (fmul (Math_round (fmul (costJpy t) (exchangeRate t))) (quantity t)) =
       Fin (val (priceSold t) * val (quantity t) -
            val (Math_round (fmul (costJpy t) (exchangeRate t))) * val (quantity t)) \<and>
       val (priceSold t) * val (quantity t) -
       val (Math_round (fmul (costJpy t) (exchangeRate t))) * val (quantity t) \<in> \<int>"
      using all wt tx_exact(3,5,6) by auto
    show "\<bar>val (priceSold t) * val (quantity t) -
           val (Math_round (fmul (costJpy t) (exchangeRate t))) * val (quantity t)\<bar>
          \<le> tx_weight t" for t
      unfolding tx_weight_def
      using abs_triangle_ineq4 [of "val (priceSold t) * val (quantity t)"
          "val (Math_round (fmul (costJpy t) (exchangeRate t))) * val (quantity t)"]
      by linarith
  qed
  have n: "dsum (map quantity ts) = Fin (\<Sum>t\<leftarrow>ts. val (quantity t))"
    using all wt tx_exact(4,7)
    by (intro dsum_exact bound) (auto simp add: tx_weight_def)
  show ?thesis
    by (simp only: stats_dsum s c p n)
qed

lemma exact_ledger_mset:
  assumes "exact_ledger ts" "mset ts' = mset ts"
  shows "exact_ledger ts'"
proof -
  from assms(2) have "set ts' = set ts" by (rule mset_eq_setD)
  moreover have "(\<Sum>t\<leftarrow>ts'. tx_weight t) = (\<Sum>t\<leftarrow>ts. tx_weight t)"
    using assms(2) by (rule sum_list_map_mset)
  ultimately show ?thesis
    using assms(1) by (simp add: exact_ledger_def list_all_iff)
qed

subsection \<open>Helper facts of the ledger store and the export\<close>

lemma transactions_ledger_remove:
  "transactions (ledger_remove i s) =
     (if i = [] then transactions s else filter (\<lambda>t. id_tx t \<noteq> i) (transactions s))"
  by (simp add: ledger_remove_def executeDelete_def handleDeleteTransaction_def truthy_def
      Let_def)

lemma modalConfig_ledger_remove:
  "modalConfig (ledger_remove i s) = \<lparr>isOpen = False, mtype = None, targetId = None\<rparr>"
  by (simp add: ledger_remove_def executeDelete_def Let_def)

lemma filter_absent: "i \<notin> id_tx ` set ts \<Longrightarrow> filter (\<lambda>t. id_tx t \<noteq> i) ts = ts"
  by (induction ts) auto

lemma quote_wrapped_quoted: "quote_wrapped (quoted s)"
  by (simp add: quote_wrapped_def quoted_def)

subsection \<open>Transaction derivation\<close>




subsection \<open>Aggregation\<close>



text \<open>
  C3. The three renderings do not always show the same total profit. The table and the
  clipboard compute \<open>(priceSold - unitLocalCost) * quantity\<close>, the CSV computes
  \<open>priceSold * quantity - unitLocalCost * quantity\<close>, and in binary64 the two differ for
  the price 19.99, the cost 50, the rate 0.2 and the quantity 3: the table and the
  clipboard have 29.969999999999995 (8435805052018359 / 2^48), the CSV 29.97
  (1054475631502295 / 2^45).
\<close>

theorem C3_renderings_differ:
  "table_totalProfit tx_frac = Fin (8435805052018359 / 2 ^ 48)
   \<and> clip_totalProfit tx_frac = Fin (8435805052018359 / 2 ^ 48)
   \<and> csv_totalProfit tx_frac = Fin (1054475631502295 / 2 ^ 45)
   \<and> clip_totalProfit tx_frac \<noteq> csv_totalProfit tx_frac"
  by (simp add: frac_table frac_clip frac_csv)

text \<open>
  C4, as stated, fails: binary64 addition is not associative, and the aggregator adds in
  the order of the ledger. The ledger of the prices 0.1, 0.2 and 0.3 has total sales
  0.6000000000000001, and the same ledger reversed has 0.6.
\<close>

theorem C4_order_counterexample:
  "mset [tx_p3, tx_p2, tx_p1] = mset [tx_p1, tx_p2, tx_p3]
   \<and> stats [tx_p3, tx_p2, tx_p1] \<noteq> stats [tx_p1, tx_p2, tx_p3]"
proof -
  have "totalSales (stats [tx_p3, tx_p2, tx_p1]) \<noteq> totalSales (stats [tx_p1, tx_p2, tx_p3])"
    by (simp add: sales_forward sales_backward)
  then have "stats [tx_p3, tx_p2, tx_p1] \<noteq> stats [tx_p1, tx_p2, tx_p3]"
    by metis
  then show ?thesis by simp
qed

text \<open>
  C4, amended. For every exact ledger (whole prices and quantities, finite rounded unit
  costs, and sales, costs and quantities that add up in absolute value to at most
  \<open>2 ^ 53\<close>), every permutation of the ledger aggregates to the same statistics.
\<close>

theorem C4_order_independent:
  "exact_ledger ts \<Longrightarrow> mset ts' = mset ts \<Longrightarrow> stats ts' = stats ts"
proof -
  assume e: "exact_ledger ts" and m: "mset ts' = mset ts"
  from e m have e': "exact_ledger ts'" by (rule exact_ledger_mset)
  show ?thesis
    by (simp only: stats_exact [OF e] stats_exact [OF e'] sum_list_map_mset [OF m])
qed

theorem C4_order_independent_witness:
  "exact_ledger [tx_kr, tx_legacy]
   \<and> mset [tx_legacy, tx_kr] = mset [tx_kr, tx_legacy]
   \<and> stats [tx_legacy, tx_kr] = stats [tx_kr, tx_legacy]"
proof -
  have e: "exact_ledger [tx_kr, tx_legacy]"
    by (simp add: exact_ledger_def int_tx_def tx_weight_def kr_unit legacy_unit)
      (simp add: tx_kr_def tx_legacy_def)
  have h: "mset [tx_legacy, tx_kr] = mset [tx_kr, tx_legacy]"
    by simp
  show ?thesis
    using e h C4_order_independent [OF e h] by simp
qed

subsection \<open>Ledger store\<close>

text \<open>
  The ids in a ledger are not empty: the ledger starts empty or from storage written by
  the application, \<^verbatim>\<open>handleSubmit\<close> is the only producer of transactions, and the id it
  generates begins with the digits of the clock. Adding, removing and clearing keep the
  ledger free of empty ids.
\<close>

lemma no_empty_id_preserved:
  assumes "[] \<notin> id_tx ` set (transactions s)"
  shows "newId \<noteq> [] \<Longrightarrow>
           [] \<notin> id_tx ` set (transactions
                  (snd (handleSubmit parseInt parseFloat newId nowIso c fd s)))"
    and "[] \<notin> id_tx ` set (transactions (ledger_remove i s))"
    and "[] \<notin> id_tx ` set (transactions (ledger_clear s))"
  using assms
  by (auto simp add: handleSubmit_def handleAddTransaction_def Let_def
      transactions_ledger_remove ledger_clear_def executeDelete_def
      handleClearAllTransactions_def truthy_def)

text \<open>
  C5. For every id and every ledger (one that holds no transaction with the empty id
  when the id given is the empty string), removal keeps exactly the transactions whose
  id differs from the given id, in their order. For every id and every ledger, removal
  leaves the ledger as it is when no transaction has that id, and removing the same id
  twice gives the same application state as removing it once.
\<close>

theorem C5_remove:
  "(i \<noteq> [] \<or> [] \<notin> id_tx ` set (transactions s) \<longrightarrow>
      transactions (ledger_remove i s) = filter (\<lambda>t. id_tx t \<noteq> i) (transactions s))
   \<and> (i \<notin> id_tx ` set (transactions s) \<longrightarrow>
        transactions (ledger_remove i s) = transactions s)
   \<and> ledger_remove i (ledger_remove i s) = ledger_remove i s"
proof -
  have idem: "ledger_remove i (ledger_remove i s) = ledger_remove i s"
    by (rule App.equality)
      (simp_all add: transactions_ledger_remove modalConfig_ledger_remove)
  have absent: "i \<notin> id_tx ` set (transactions s) \<longrightarrow>
        transactions (ledger_remove i s) = transactions s"
    by (simp add: transactions_ledger_remove filter_absent)
  have "transactions (ledger_remove i s) = filter (\<lambda>t. id_tx t \<noteq> i) (transactions s)"
    if "i \<noteq> [] \<or> [] \<notin> id_tx ` set (transactions s)"
  proof (cases "i = []")
    case True
    with that have "i \<notin> id_tx ` set (transactions s)" by simp
    with absent show ?thesis by (simp add: filter_absent)
  next
    case False
    then show ?thesis by (simp add: transactions_ledger_remove)
  qed
  with idem absent show ?thesis by blast
qed

theorem C5_remove_witness:
  "''k1'' \<noteq> []
   \<and> transactions (ledger_remove ''k1'' app_two) = [tx_legacy]
   \<and> [] \<notin> id_tx ` set (transactions app_two)
   \<and> transactions (ledger_remove [] app_two) = [tx_kr, tx_legacy]
   \<and> ''zz'' \<notin> id_tx ` set (transactions app_two)
   \<and> transactions (ledger_remove ''zz'' app_two) = [tx_kr, tx_legacy]
   \<and> ledger_remove ''k1'' (ledger_remove ''k1'' app_two) = ledger_remove ''k1'' app_two"
  using C5_remove [of "''k1''" app_two] C5_remove [of "[]" app_two]
    C5_remove [of "''zz''" app_two]
  by (simp add: app_two_def tx_kr_def tx_legacy_def)

text \<open>
  C6. For every application state, clearing empties the ledger, and the statistics of
  the cleared ledger are all zero.
\<close>

theorem C6_clear:
  "transactions (ledger_clear s) = []
   \<and> stats (transactions (ledger_clear s))
       = \<lparr>totalSales = 0, totalCost = 0, totalProfit = 0, itemCount = 0\<rparr>"
  by (simp add: ledger_clear_def executeDelete_def handleClearAllTransactions_def truthy_def
      Let_def stats_def)

subsection \<open>Country policy\<close>

text \<open>
  C7. The table gives JP the cost rate 0.2, the selling rate 0.28 and the yen sign, KR
  0.02, 0.035 and the won sign, OTHER 1.0, 1.0 and the dollar sign. For a code of the
  table, \<^verbatim>\<open>getCountryLabel\<close> and \<^verbatim>\<open>getCurrencySymbol\<close> return the label and the
  symbol of its entry. For every unknown or missing code they return the label and the
  symbol of the entry of JP, and so does the CSV export; the analysis summary names JP
  for a missing code; a form in its initial state, where no country has been chosen,
  holds JP and the two rates of JP. All of these are total: there is no error path.
\<close>

theorem C7_country_policy:
  "COUNTRY_CONFIG JP
     = \<lparr>label = label_JP, rate = dbl (2 / 10), sellingRate = dbl (28 / 100),
        currency = yen_sign\<rparr>
   \<and> COUNTRY_CONFIG KR
     = \<lparr>label = label_KR, rate = dbl (2 / 100), sellingRate = dbl (35 / 1000),
        currency = won_sign\<rparr>
   \<and> COUNTRY_CONFIG OTHER
     = \<lparr>label = label_OTHER, rate = 1, sellingRate = 1, currency = ''$''\<rparr>
   \<and> yen_sign = [CHR 0xC2, CHR 0xA5] \<and> won_sign = [CHR 0xE2, CHR 0x82, CHR 0xA9]
   \<and> getCountryLabel (Some (key_code k)) = label (COUNTRY_CONFIG k)
   \<and> getCurrencySymbol (Some (key_code k)) = currency (COUNTRY_CONFIG k)
   \<and> (c \<notin> {Some ''JP'', Some ''KR'', Some ''OTHER''} \<longrightarrow>
        getCountryLabel c = label (COUNTRY_CONFIG JP)
        \<and> getCurrencySymbol c = currency (COUNTRY_CONFIG JP))
   \<and> (country t \<notin> {Some ''JP'', Some ''KR'', Some ''OTHER''} \<longrightarrow>
        csv_countryLabel t = label (COUNTRY_CONFIG JP)
        \<and> csv_currencySymbol t = currency (COUNTRY_CONFIG JP))
   \<and> (country t = None \<longrightarrow> sum_country (summary_item t) = key_code JP)
   \<and> initial_country = JP
   \<and> f_exchangeRate (initial_formData numstr today) = numstr (rate (COUNTRY_CONFIG JP))
   \<and> f_sellingExchangeRate (initial_formData numstr today)
       = numstr (sellingRate (COUNTRY_CONFIG JP))"
proof -
  have known: "getCountryLabel (Some (key_code k)) = label (COUNTRY_CONFIG k)
      \<and> getCurrencySymbol (Some (key_code k)) = currency (COUNTRY_CONFIG k)"
    by (cases k) (simp_all add: getCountryLabel_def getCurrencySymbol_def)
  have unknown: "c \<notin> {Some ''JP'', Some ''KR'', Some ''OTHER''} \<longrightarrow>
        getCountryLabel c = label (COUNTRY_CONFIG JP)
        \<and> getCurrencySymbol c = currency (COUNTRY_CONFIG JP)"
    by (simp add: getCountryLabel_def getCurrencySymbol_def)
  have csv: "country t \<notin> {Some ''JP'', Some ''KR'', Some ''OTHER''} \<longrightarrow>
        csv_countryLabel t = label (COUNTRY_CONFIG JP)
        \<and> csv_currencySymbol t = currency (COUNTRY_CONFIG JP)"
    by (simp add: csv_countryLabel_def csv_currencySymbol_def)
  have rest: "(country t = None \<longrightarrow> sum_country (summary_item t) = key_code JP)
      \<and> initial_country = JP
      \<and> f_exchangeRate (initial_formData numstr today) = numstr (rate (COUNTRY_CONFIG JP))
      \<and> f_sellingExchangeRate (initial_formData numstr today)
          = numstr (sellingRate (COUNTRY_CONFIG JP))"
    by (simp add: summary_item_def initial_country_def initial_formData_def)
  from known unknown csv rest show ?thesis
    by (simp add: yen_sign_def won_sign_def)
qed

theorem C7_country_policy_witness:
  "None \<notin> {Some ''JP'', Some ''KR'', Some ''OTHER''}
   \<and> getCountryLabel None = label_JP \<and> getCurrencySymbol None = yen_sign
   \<and> Some ''XX'' \<notin> {Some ''JP'', Some ''KR'', Some ''OTHER''}
   \<and> getCountryLabel (Some ''XX'') = label_JP \<and> getCurrencySymbol (Some ''XX'') = yen_sign
   \<and> country tx_legacy \<notin> {Some ''JP'', Some ''KR'', Some ''OTHER''}
   \<and> csv_countryLabel tx_legacy = label_JP \<and> csv_currencySymbol tx_legacy = yen_sign
   \<and> country tx_legacy = None \<and> sum_country (summary_item tx_legacy) = ''JP''"
  using C7_country_policy [of JP None tx_legacy] C7_country_policy [of JP "Some ''XX''" tx_legacy]
  by (simp add: tx_legacy_def)

subsection \<open>Export formatter\<close>

text \<open>
  C8, as stated, fails: not every text-bearing field of a CSV row is quote-wrapped. The
  date and the country label are strings that the row holds as they are; in the row of a
  KR transaction the second field is the bare label.
\<close>

theorem C8_bare_label_counterexample:
  "\<not> (\<forall>numstr localeDate t. \<forall>c \<in> set (csv_cells numstr localeDate t).
        text_bearing c \<longrightarrow> cell_quote_wrapped c)"
proof
  assume all: "\<forall>numstr localeDate t. \<forall>c \<in> set (csv_cells numstr localeDate t).
        text_bearing c \<longrightarrow> cell_quote_wrapped c"
  have "S label_KR \<in> set (csv_cells (\<lambda>n. []) (\<lambda>d. d) tx_kr)"
    by (simp add: csv_cells_def csv_countryLabel_def tx_kr_def)
  with all have "text_bearing (S label_KR) \<longrightarrow> cell_quote_wrapped (S label_KR)"
    by blast
  then show False
    by (simp add: label_KR_def quote_wrapped_def)
qed

text \<open>
  C8, amended. The clipboard rows are the rows of the transactions in the reverse of the
  ledger's order: a transaction added to the ledger gets the first row. The CSV rows are
  in the ledger's order: a transaction added to the ledger gets the last row. The copied
  text and the file content are the header line followed by these rows. In a CSV row
  the customer name, the item name, the foreign cost, the unit local cost, the price, the
  profit per unit and the total profit are each wrapped in double quotes; the date and the
  country label are written as they are, and the country label is never quote-wrapped.
\<close>

theorem C8_orders_and_quoting:
  "clip_rows numstr localeDate ts = rev (map (clip_row numstr localeDate) ts)
   \<and> clip_rows numstr localeDate (ts @ [t])
       = clip_row numstr localeDate t # clip_rows numstr localeDate ts
   \<and> csvRows numstr localeDate ts = map (csv_row numstr localeDate) ts
   \<and> csvRows numstr localeDate (ts @ [t])
       = csvRows numstr localeDate ts @ [csv_row numstr localeDate t]
   \<and> textToCopy numstr localeDate ts
       = join [CHR 0x0A]
           (join [CHR 0x09] clip_headers # rev (map (clip_row numstr localeDate) ts))
   \<and> csvContent numstr localeDate ts
       = [CHR 0xEF, CHR 0xBB, CHR 0xBF]
         @ join [CHR 0x0A] (join '','' csv_headers # map (csv_row numstr localeDate) ts)
   \<and> csv_cells numstr localeDate t ! 2 = S (quoted (customerName t))
   \<and> csv_cells numstr localeDate t ! 3 = S (quoted (itemName t))
   \<and> csv_cells numstr localeDate t ! 5 = S (quoted (csv_currencySymbol t @ numstr (costJpy t)))
   \<and> csv_cells numstr localeDate t ! 8 = S (quoted (''$'' @ numstr (csv_localCostPerUnit t)))
   \<and> csv_cells numstr localeDate t ! 9 = S (quoted (''$'' @ numstr (priceSold t)))
   \<and> csv_cells numstr localeDate t ! 10 = S (quoted (''$'' @ numstr (csv_profitPerUnit t)))
   \<and> csv_cells numstr localeDate t ! 11 = S (quoted (''$'' @ numstr (csv_totalProfit t)))
   \<and> quote_wrapped (quoted x)
   \<and> csv_cells numstr localeDate t ! 0 = S (localeDate (date t))
   \<and> csv_cells numstr localeDate t ! 1 = S (csv_countryLabel t)
   \<and> \<not> quote_wrapped (csv_countryLabel t)"
proof -
  have "\<not> quote_wrapped (csv_countryLabel t)"
    by (simp add: csv_countryLabel_def quote_wrapped_def label_JP_def label_KR_def
        label_OTHER_def)
  then show ?thesis
    by (simp add: clip_rows_def csvRows_def csv_cells_def rev_map quote_wrapped_quoted
        textToCopy_def csvContent_def)
qed

subsection \<open>Entry form\<close>

text \<open>
  C9. When the customer name or the item name of the form is empty, submitting changes
  nothing: the form data and the application state, the ledger in it, are returned as they
  were. When both are non-empty, the ledger grows by exactly one transaction at its end,
  built from the form.
\<close>

theorem C9_submit:
  "(f_customerName fd = [] \<or> f_itemName fd = [] \<longrightarrow>
      handleSubmit parseInt parseFloat newId nowIso c fd s = (fd, s))
   \<and> (f_customerName fd \<noteq> [] \<and> f_itemName fd \<noteq> [] \<longrightarrow>
        transactions (snd (handleSubmit parseInt parseFloat newId nowIso c fd s))
          = transactions s @
            [\<lparr>id_tx = newId, country = Some c,
              customerName = f_customerName fd, itemName = f_itemName fd,
              quantity = or_default (parseInt (f_quantity fd)) 1,
              costJpy = or_default (parseFloat (f_costForeign fd)) 0,
              exchangeRate = or_default (parseFloat (f_exchangeRate fd)) 0,
              sellingExchangeRate = Some (or_default (parseFloat (f_sellingExchangeRate fd)) 0),
              priceSold = or_default (parseFloat (f_priceSold fd)) 0,
              date = (if f_date fd = [] then nowIso else f_date fd)\<rparr>]
        \<and> length (transactions (snd (handleSubmit parseInt parseFloat newId nowIso c fd s)))
          = Suc (length (transactions s)))"
  by (simp add: handleSubmit_def handleAddTransaction_def Let_def)

theorem C9_submit_witness:
  "f_customerName fd_blank = []
   \<and> handleSubmit (\<lambda>x. None) (\<lambda>x. None) ''n9'' ''2024-03-01T00:00:00.000Z'' ''JP'' fd_blank app_two
       = (fd_blank, app_two)
   \<and> f_customerName fd_filled \<noteq> [] \<and> f_itemName fd_filled \<noteq> []
   \<and> length (transactions (snd
        (handleSubmit (\<lambda>x. None) (\<lambda>x. None) ''n9'' ''2024-03-01T00:00:00.000Z'' ''JP''
           fd_filled app_two)))
       = 3"
  using C9_submit [of fd_blank "\<lambda>x. None" "\<lambda>x. None" "''n9''" "''2024-03-01T00:00:00.000Z''"
      "''JP''" app_two]
    C9_submit [of fd_filled "\<lambda>x. None" "\<lambda>x. None" "''n9''" "''2024-03-01T00:00:00.000Z''"
      "''JP''" app_two]
  by (simp add: fd_blank_def fd_filled_def app_two_def)

subsection \<open>Outbound analysis summary\<close>

text \<open>
  C10, as stated, fails: the subtraction of the unit cost from the price is rounded, and
  a large price absorbs the difference. For the price \<open>10 ^ 17\<close>, the cost 1 at the rate
  0.5 and the quantity 1 the converted unit cost is one half, not a whole number, and yet
  the profit of the analysis summary and the total profit of the table are both
  \<open>10 ^ 17\<close>.
\<close>

theorem C10_large_price_counterexample:
  "fmul (costJpy tx_big) (exchangeRate tx_big) = Fin (1 / 2)
   \<and> (1 / 2 :: rat) \<notin> \<int>
   \<and> quantity tx_big = Fin 1
   \<and> sum_profit (summary_item tx_big) = table_totalProfit tx_big"
  by (simp add: big_product big_summary big_table) (simp add: tx_big_def)

text \<open>
  C10, amended. For every transaction, the profit in the analysis summary is
  \<open>(priceSold - costForeign * exchangeRate) * quantity\<close> in binary64, with no rounding of
  the unit cost. When the product \<open>costForeign * exchangeRate\<close> is not an integer, the
  quantity is at least 1 and the subtractions and multiplications of the two computations
  are exact (none of them is rounded), it differs from the total profit of the table, of
  the clipboard row and of the CSV row of the same transaction.
\<close>

theorem C10_analysis_profit:
  "sum_profit (summary_item t)
     = fmul (fsub (priceSold t) (fmul (costJpy t) (exchangeRate t))) (quantity t)
   \<and> (priceSold t = Fin p \<and> quantity t = Fin q
        \<and> fmul (costJpy t) (exchangeRate t) = Fin x \<and> x \<notin> \<int> \<and> 1 \<le> q
        \<and> fsub (Fin p) (Fin x) = Fin (p - x)
        \<and> fmul (Fin (p - x)) (Fin q) = Fin ((p - x) * q)
        \<and> fsub (Fin p) (Fin (of_int (round x))) = Fin (p - of_int (round x))
        \<and> fmul (Fin (p - of_int (round x))) (Fin q) = Fin ((p - of_int (round x)) * q)
        \<longrightarrow> sum_profit (summary_item t) \<noteq> table_totalProfit t
            \<and> sum_profit (summary_item t) \<noteq> clip_totalProfit t)
   \<and> (priceSold t = Fin p \<and> quantity t = Fin q
        \<and> fmul (costJpy t) (exchangeRate t) = Fin x \<and> x \<notin> \<int> \<and> 1 \<le> q
        \<and> fsub (Fin p) (Fin x) = Fin (p - x)
        \<and> fmul (Fin (p - x)) (Fin q) = Fin ((p - x) * q)
        \<and> fmul (Fin p) (Fin q) = Fin (p * q)
        \<and> fmul (Fin (of_int (round x))) (Fin q) = Fin (of_int (round x) * q)
        \<and> fsub (Fin (p * q)) (Fin (of_int (round x) * q)) = Fin (p * q - of_int (round x) * q)
        \<longrightarrow> sum_profit (summary_item t) \<noteq> csv_totalProfit t)"
proof -
  have eq: "sum_profit (summary_item t)
      = fmul (fsub (priceSold t) (fmul (costJpy t) (exchangeRate t))) (quantity t)"
    by (simp add: summary_item_def)
  have ne: "(p - x) * q \<noteq> (p - of_int (round x)) * q" if "x \<notin> \<int>" "1 \<le> q" for p q x :: rat
  proof -
    from that(1) have "of_int (round x) \<noteq> x" by (metis Ints_of_int)
    with that(2) show ?thesis by simp
  qed
  have mr: "Math_round (Fin x) = Fin (of_int (round x))" for x
    by (simp add: round_def)
  have tab: "sum_profit (summary_item t) \<noteq> table_totalProfit t
      \<and> sum_profit (summary_item t) \<noteq> clip_totalProfit t"
    if "priceSold t = Fin p" "quantity t = Fin q" "fmul (costJpy t) (exchangeRate t) = Fin x"
      "x \<notin> \<int>" "1 \<le> q" "fsub (Fin p) (Fin x) = Fin (p - x)"
      "fmul (Fin (p - x)) (Fin q) = Fin ((p - x) * q)"
      "fsub (Fin p) (Fin (of_int (round x))) = Fin (p - of_int (round x))"
      "fmul (Fin (p - of_int (round x))) (Fin q) = Fin ((p - of_int (round x)) * q)"
  proof -
    have a: "sum_profit (summary_item t) = Fin ((p - x) * q)"
      by (simp only: eq that(1,2,3,6,7))
    have b: "table_totalProfit t = Fin ((p - of_int (round x)) * q)"
      by (simp only: table_totalProfit_def table_localCostUnit_def that(1,2,3,8,9) mr)
    have c: "clip_totalProfit t = Fin ((p - of_int (round x)) * q)"
      by (simp only: clip_totalProfit_def clip_localCostUnit_def that(1,2,3,8,9) mr)
    from ne [OF that(4,5)] show ?thesis
      by (simp only: a b c number.inject simp_thms)
  qed
  have csv: "sum_profit (summary_item t) \<noteq> csv_totalProfit t"
    if "priceSold t = Fin p" "quantity t = Fin q" "fmul (costJpy t) (exchangeRate t) = Fin x"
      "x \<notin> \<int>" "1 \<le> q" "fsub (Fin p) (Fin x) = Fin (p - x)"
      "fmul (Fin (p - x)) (Fin q) = Fin ((p - x) * q)"
      "fmul (Fin p) (Fin q) = Fin (p * q)"
      "fmul (Fin (of_int (round x))) (Fin q) = Fin (of_int (round x) * q)"
      "fsub (Fin (p * q)) (Fin (of_int (round x) * q)) = Fin (p * q - of_int (round x) * q)"
  proof -
    have a: "sum_profit (summary_item t) = Fin ((p - x) * q)"
      by (simp only: eq that(1,2,3,6,7))
    have b: "csv_totalProfit t = Fin (p * q - of_int (round x) * q)"
      by (simp only: csv_totalProfit_def csv_totalSales_def csv_localCostTotal_def
          csv_localCostPerUnit_def that(1,2,3,8,9,10) mr)
    from ne [OF that(4,5)] have "(p - x) * q \<noteq> p * q - of_int (round x) * q"
      by (simp add: left_diff_distrib)
    then show ?thesis
      by (simp only: a b number.inject simp_thms)
  qed
  from eq tab csv show ?thesis by blast
qed

theorem C10_analysis_profit_witness:
  "priceSold tx_half = Fin 3 \<and> quantity tx_half = Fin 2
   \<and> fmul (costJpy tx_half) (exchangeRate tx_half) = Fin (5 / 2)
   \<and> (5 / 2 :: rat) \<notin> \<int> \<and> (1 :: rat) \<le> 2
   \<and> sum_profit (summary_item tx_half) = Fin 1
   \<and> sum_profit (summary_item tx_half) \<noteq> table_totalProfit tx_half
   \<and> sum_profit (summary_item tx_half) \<noteq> clip_totalProfit tx_half
   \<and> sum_profit (summary_item tx_half) \<noteq> csv_totalProfit tx_half"
proof -
  have r: "round (5 / 2 :: rat) = 3"
    by (simp add: round_def floor_eq_iff)
  have pq: "priceSold tx_half = Fin 3" "quantity tx_half = Fin 2"
    by (simp_all add: tx_half_def)
  have ni: "(5 / 2 :: rat) \<notin> \<int>" by simp
  have h1: "fsub (Fin 3) (Fin (5 / 2)) = Fin (3 - 5 / 2)"
    using sub_3_25 by simp
  have h2: "fmul (Fin (3 - 5 / 2)) (Fin 2) = Fin ((3 - 5 / 2) * 2)"
    using mul_05_2 by simp
  have h3: "fsub (Fin 3) (Fin (of_int (round (5 / 2 :: rat)))) = Fin (3 - of_int (round (5 / 2 :: rat)))"
    using sub_3_3 by (simp add: r)
  have h4: "fmul (Fin (3 - of_int (round (5 / 2 :: rat)))) (Fin 2)
      = Fin ((3 - of_int (round (5 / 2 :: rat))) * 2)"
    using mul_0_2 by (simp add: r)
  have h5: "fmul (Fin 3) (Fin 2) = Fin (3 * 2)"
    using mul_3_2 by simp
  have h6: "fmul (Fin (of_int (round (5 / 2 :: rat)))) (Fin 2) = Fin (of_int (round (5 / 2 :: rat)) * 2)"
    using mul_3_2 by (simp add: r)
  have h7: "fsub (Fin (3 * 2)) (Fin (of_int (round (5 / 2 :: rat)) * 2))
      = Fin (3 * 2 - of_int (round (5 / 2 :: rat)) * 2)"
    using sub_6_6 by (simp add: r)
  have s: "sum_profit (summary_item tx_half) = Fin 1"
    unfolding summary_item_def SummaryItem.select_convs half_product
    by (simp only: tx_half_def Transaction.select_convs sub_3_25 mul_05_2)
  have le: "(1 :: rat) \<le> 2" by simp
  from C10_analysis_profit [of tx_half 3 2 "5 / 2"] pq half_product ni le h1 h2 h3 h4 h5 h6 h7
  have "sum_profit (summary_item tx_half) \<noteq> table_totalProfit tx_half
    \<and> sum_profit (summary_item tx_half) \<noteq> clip_totalProfit tx_half
    \<and> sum_profit (summary_item tx_half) \<noteq> csv_totalProfit tx_half"
    by blast
  then show ?thesis
    using pq half_product ni le s by blast
qed

end
